theory Spec2Isabelle
  imports Main "HOL-Library.Sublist"
begin

section \<open>Path and string primitives of the Python runtime (POSIX flavour)\<close>

text \<open>
  Paths are Python strings, here \<open>string\<close>. The functions below follow
  \<^verbatim>\<open>posixpath\<close>: \<^verbatim>\<open>join\<close>, \<^verbatim>\<open>split\<close>, \<^verbatim>\<open>splitext\<close>, \<^verbatim>\<open>basename\<close>,
  and \<^verbatim>\<open>str.rfind\<close>, \<^verbatim>\<open>str.lower\<close> and \<^verbatim>\<open>str(int)\<close> for a non-negative counter.
\<close>

definition sep :: char where
  "sep = CHR ''/''"

definition extsep :: char where
  "extsep = CHR ''.''"

definition rfind :: "string \<Rightarrow> char \<Rightarrow> int" where
  \<comment> \<open>index of the last occurrence, \<open>-1\<close> when there is none\<close>
  "rfind p c =
     (if c \<in> set p
      then int (length p) - 1 - int (length (takeWhile (\<lambda>x. x \<noteq> c) (rev p)))
      else - 1)"

definition startswith_sep :: "string \<Rightarrow> bool" where
  "startswith_sep b = (case b of [] \<Rightarrow> False | c # _ \<Rightarrow> c = sep)"

definition endswith_sep :: "string \<Rightarrow> bool" where
  "endswith_sep p = (p \<noteq> [] \<and> last p = sep)"

definition rstrip_sep :: "string \<Rightarrow> string" where
  "rstrip_sep s = rev (dropWhile (\<lambda>x. x = sep) (rev s))"

definition os_path_join :: "string \<Rightarrow> string \<Rightarrow> string" where
  "os_path_join a b =
     (if startswith_sep b then b
      else if a = [] \<or> endswith_sep a then a @ b
      else a @ [sep] @ b)"

definition os_path_split :: "string \<Rightarrow> string \<times> string" where
  "os_path_split p =
     (let i = nat (rfind p sep + 1);
          head = take i p;
          tail = drop i p
      in (if head \<noteq> [] \<and> head \<noteq> replicate (length head) sep
          then rstrip_sep head else head, tail))"

definition os_path_basename :: "string \<Rightarrow> string" where
  "os_path_basename p = drop (nat (rfind p sep + 1)) p"

definition os_path_splitext :: "string \<Rightarrow> string \<times> string" where
  \<comment> \<open>the dot must come after the last separator and after a character of the
      file name that is not a dot (leading dots are not an extension)\<close>
  "os_path_splitext p =
     (let sepIndex = rfind p sep;
          dotIndex = rfind p extsep
      in if dotIndex > sepIndex \<and>
            list_ex (\<lambda>c. c \<noteq> extsep) (drop (nat (sepIndex + 1)) (take (nat dotIndex) p))
         then (take (nat dotIndex) p, drop (nat dotIndex) p)
         else (p, []))"

definition lower_char :: "char \<Rightarrow> char" where
  \<comment> \<open>ASCII letters only\<close>
  "lower_char c =
     (case map_of (zip ''ABCDEFGHIJKLMNOPQRSTUVWXYZ'' ''abcdefghijklmnopqrstuvwxyz'') c of
        Some l \<Rightarrow> l
      | None \<Rightarrow> c)"

definition lower :: "string \<Rightarrow> string" where
  "lower s = map lower_char s"

definition digit_char :: "nat \<Rightarrow> char" where
  "digit_char d = ''0123456789'' ! d"

function str_nat :: "nat \<Rightarrow> string" where
  "str_nat n = (if n < 10 then [digit_char n] else str_nat (n div 10) @ [digit_char (n mod 10)])"
  by pat_completeness auto
termination
  by (relation "measure id") auto

declare str_nat.simps [simp del]

section \<open>Collision-free names\<close>

text \<open>
  \<^verbatim>\<open>os.path.exists\<close> is membership in the set of existing paths. The probing loop of
  \<^verbatim>\<open>get_unique_filename\<close> has no bound in the source, so it is a partial function: \<open>None\<close>
  is the run that never returns.
\<close>

definition os_path_exists :: "string set \<Rightarrow> string \<Rightarrow> bool" where
  "os_path_exists fs p = (p \<in> fs)"

definition new_filepath :: "string \<Rightarrow> string \<Rightarrow> string \<Rightarrow> nat \<Rightarrow> string" where
  "new_filepath directory name ext counter =
     os_path_join directory (name @ ''_'' @ str_nat counter @ ext)"

partial_function (option) get_unique_filename_loop ::
  "string set \<Rightarrow> string \<Rightarrow> string \<Rightarrow> string \<Rightarrow> nat \<Rightarrow> string option" where
  "get_unique_filename_loop fs directory name ext counter =
     (if \<not> os_path_exists fs (new_filepath directory name ext counter)
      then Some (new_filepath directory name ext counter)
      else get_unique_filename_loop fs directory name ext (counter + 1))"

declare get_unique_filename_loop.simps [code]

definition get_unique_filename :: "string set \<Rightarrow> string \<Rightarrow> string option" where
  "get_unique_filename fs filepath =
     (if \<not> os_path_exists fs filepath then Some filepath
      else case os_path_split filepath of (directory, filename) \<Rightarrow>
           case os_path_splitext filename of (name, ext) \<Rightarrow>
             get_unique_filename_loop fs directory name ext 1)"

text \<open>The name the loop tries with a given counter, for a path as a whole.\<close>

definition suffixed :: "string \<Rightarrow> nat \<Rightarrow> string" where
  "suffixed filepath counter =
     (case os_path_split filepath of (directory, filename) \<Rightarrow>
      case os_path_splitext filename of (name, ext) \<Rightarrow>
        new_filepath directory name ext counter)"

section \<open>Exceptions, log, filesystem and the outcomes of external operations\<close>

text \<open>
  Only the distinctions the handlers of the program make are kept: the two classes named
  in \<^verbatim>\<open>except (subprocess.SubprocessError, FileNotFoundError)\<close>, \<^verbatim>\<open>ImportError\<close>,
  and every other subclass of \<^verbatim>\<open>Exception\<close>. The string is \<^verbatim>\<open>str(e)\<close>.
\<close>

datatype exn_class = SubprocessError | FileNotFoundError | ImportError | OtherException

datatype exn = Exn exn_class string

fun class_of :: "exn \<Rightarrow> exn_class" where
  "class_of (Exn c m) = c"

fun str_exn :: "exn \<Rightarrow> string" where
  "str_exn (Exn c m) = m"

datatype level = DEBUG | INFO | WARNING | ERROR

datatype log_record =
    Log level string
  | Traceback exn  \<comment> \<open>\<^verbatim>\<open>logging.debug(traceback.format_exc())\<close> while handling the exception\<close>

datatype backend = Unoconv | LibreOffice

datatype element =
  Element (elem_tag: string) (elem_attrib: "(string \<times> string) list")
          (elem_text: "string option") (elem_children: "element list")

text \<open>
  The state the program acts on: the set of existing paths, the XML documents written by
  the native backend (by path), the log, and the record of the external commands launched.
\<close>

record world =
  files :: "string set"
  documents :: "string \<rightharpoonup> element"
  log :: "log_record list"
  launched :: "backend list"

definition logging :: "level \<Rightarrow> string \<Rightarrow> world \<Rightarrow> world" where
  "logging lv msg w = w\<lparr>log := log w @ [Log lv msg]\<rparr>"

definition logging_traceback :: "exn \<Rightarrow> world \<Rightarrow> world" where
  "logging_traceback e w = w\<lparr>log := log w @ [Traceback e]\<rparr>"

text \<open>
  What the collaborators outside the program do is given from outside, one outcome for
  each place the program calls them while it processes one file. An operation that fails
  raises its exception and leaves the set of existing paths as it was, with two
  exceptions: \<^verbatim>\<open>tree.write\<close> opens (creates or truncates) the output file before it
  serialises, and a move across file systems copies before it removes, so either can fail
  after the destination has come to exist; \<open>tree_write_leaves_file\<close> and
  \<open>move_leaves_copy\<close> say whether a failure has left it behind. A launched process
  ends with an exit status and has or has not written the expected \<^verbatim>\<open>.vdx\<close> into the
  scratch directory; the string is the text of the \<^verbatim>\<open>CalledProcessError\<close> that
  \<^verbatim>\<open>check=True\<close> raises for a status other than 0.
\<close>

datatype run_outcome =
    Completed int bool string
  | Raised exn

record 'n shape =
  shape_name :: "string option"
  shape_x :: "'n option"
  shape_y :: "'n option"
  shape_width :: "'n option"
  shape_height :: "'n option"

record 'n page =
  page_name :: string
  page_width :: 'n
  page_height :: 'n
  page_shapes :: "'n shape list"

record 'n drawing =
  pages :: "'n page list"

record 'n environment =
  py_str :: "'n \<Rightarrow> string"
  VisioFile :: "exn + 'n drawing"
  tree_write :: "exn option"
  tree_write_leaves_file :: bool
  makedirs :: "exn option"
  run_unoconv :: run_outcome
  copy2_unoconv :: "exn option"
  remove_unoconv :: "exn option"
  run_soffice :: run_outcome
  copy2_soffice :: "exn option"
  remove_soffice :: "exn option"
  rmtree :: "exn option"
  move :: "exn option"
  move_leaves_copy :: bool
  elapsed_2f :: string

record config =
  SCRIPT_DIR :: string
  VSDX_SUPPORT :: bool
  PROGRESS_BAR_SUPPORT :: bool



definition OUTPUT_DIR :: "config \<Rightarrow> string" where
  "OUTPUT_DIR cfg = os_path_join (SCRIPT_DIR cfg) ''output''"

definition ARCHIVE_DIR :: "config \<Rightarrow> string" where
  "ARCHIVE_DIR cfg = os_path_join (SCRIPT_DIR cfg) ''archive''"

definition LOGS_DIR :: "config \<Rightarrow> string" where
  "LOGS_DIR cfg = os_path_join (SCRIPT_DIR cfg) ''logs''"

section \<open>The native backend\<close>

text \<open>
  A shape attribute that the handle does not expose (\<^verbatim>\<open>hasattr\<close> is false) is \<open>None\<close>.
  \<^verbatim>\<open>shape.name if shape.name else ...\<close> takes the name when it is truthy: neither
  \<^verbatim>\<open>None\<close> nor the empty string. The numbers of the handle are of a type \<open>'n\<close>, and
  \<open>py_str\<close> is Python's \<^verbatim>\<open>str\<close> on them. \<open>VisioFile env = Inl e\<close> is any exception
  raised while the file is opened and its pages and shapes are read, \<open>tree_write\<close> the
  outcome of writing the tree; both end in the handler of the function.
\<close>

definition text_element :: "string \<Rightarrow> string \<Rightarrow> element" where
  "text_element t s = Element t [] (Some s) []"

definition shape_display_name :: "nat \<Rightarrow> 'n shape \<Rightarrow> string" where
  "shape_display_name shape_id shape =
     (case shape_name shape of
        Some n \<Rightarrow> if n \<noteq> [] then n else ''Shape_'' @ str_nat shape_id
      | None \<Rightarrow> ''Shape_'' @ str_nat shape_id)"

definition shape_props :: "('n \<Rightarrow> string) \<Rightarrow> 'n shape \<Rightarrow> element list" where
  "shape_props str shape =
     (case (shape_x shape, shape_y shape) of
        (Some x, Some y) \<Rightarrow> [text_element ''PosX'' (str x), text_element ''PosY'' (str y)]
      | _ \<Rightarrow> []) @
     (case (shape_width shape, shape_height shape) of
        (Some wd, Some ht) \<Rightarrow> [text_element ''Width'' (str wd), text_element ''Height'' (str ht)]
      | _ \<Rightarrow> [])"

definition shape_elem :: "('n \<Rightarrow> string) \<Rightarrow> nat \<Rightarrow> 'n shape \<Rightarrow> element" where
  "shape_elem str shape_id shape =
     Element ''Shape'' [(''ID'', str_nat shape_id), (''Name'', shape_display_name shape_id shape)] None
       [Element ''ShapeProperties'' [] None (shape_props str shape)]"

definition page_elem :: "('n \<Rightarrow> string) \<Rightarrow> nat \<Rightarrow> 'n page \<Rightarrow> element" where
  "page_elem str idx page =
     Element ''Page'' [(''ID'', str_nat idx), (''Name'', page_name page)] None
       [Element ''PageProperties'' [] None
          [text_element ''PageWidth'' (str (page_width page)),
           text_element ''PageHeight'' (str (page_height page))],
        Element ''Shapes'' [] None
          (map (\<lambda>(shape_id, shape). shape_elem str shape_id shape)
               (enumerate 1 (page_shapes page)))]"

definition vdx_root :: "('n \<Rightarrow> string) \<Rightarrow> string \<Rightarrow> 'n drawing \<Rightarrow> element" where
  "vdx_root str input_file drawing =
     Element ''VisioDocument'' [(''xmlns'', ''http://schemas.microsoft.com/visio/2003/core'')] None
       [Element ''DocumentProperties'' [] None
          [text_element ''Title'' (os_path_basename input_file),
           text_element ''Creator'' ''VDXConvert''],
        Element ''Pages'' [] None
          (map (\<lambda>(idx, page). page_elem str idx page) (enumerate 1 (pages drawing)))]"

definition convert_vsdx_to_vdx ::
  "config \<Rightarrow> 'n environment \<Rightarrow> world \<Rightarrow> string \<Rightarrow> string \<Rightarrow> (exn + bool) \<times> world" where
  "convert_vsdx_to_vdx cfg env w input_file output_file =
     (if \<not> VSDX_SUPPORT cfg
      then (Inl (Exn ImportError ''vsdx library is required for processing .vsdx files''), w)
      else
        (case VisioFile env of
           Inl e \<Rightarrow>
             (Inr False,
              logging_traceback e
                (logging ERROR (''Error converting '' @ input_file @ '' to VDX: '' @ str_exn e) w))
         | Inr drawing \<Rightarrow>
             (case tree_write env of
                None \<Rightarrow>
                  (Inr True,
                   w\<lparr>files := insert output_file (files w),
                     documents := (documents w)(output_file \<mapsto>
                                     vdx_root (py_str env) input_file drawing)\<rparr>)
              | Some e \<Rightarrow>
                  (Inr False,
                   logging_traceback e
                     (logging ERROR (''Error converting '' @ input_file @ '' to VDX: '' @ str_exn e)
                        (if tree_write_leaves_file env
                         then w\<lparr>files := insert output_file (files w),
                                documents := (documents w)(output_file := None)\<rparr>
                         else w))))))"

text \<open>Reading the emitted document the way \<^verbatim>\<open>ElementTree\<close> does.\<close>

definition findall :: "string \<Rightarrow> element \<Rightarrow> element list" where
  "findall t e = filter (\<lambda>c. elem_tag c = t) (elem_children e)"

definition get_attr :: "string \<Rightarrow> element \<Rightarrow> string option" where
  "get_attr k e = map_of (elem_attrib e) k"

definition page_elements :: "element \<Rightarrow> element list" where
  "page_elements root = concat (map (findall ''Page'') (findall ''Pages'' root))"

definition shape_elements :: "element \<Rightarrow> element list" where
  "shape_elements pg = concat (map (findall ''Shape'') (findall ''Shapes'' pg))"

definition props_of :: "string \<Rightarrow> element \<Rightarrow> element list" where
  "props_of t e = concat (map elem_children (findall t e))"

section \<open>The external-process backends\<close>

definition temp_dir :: "config \<Rightarrow> string" where
  "temp_dir cfg = os_path_join (LOGS_DIR cfg) ''temp''"

definition caught :: "exn \<Rightarrow> bool" where
  \<comment> \<open>\<^verbatim>\<open>except (subprocess.SubprocessError, FileNotFoundError)\<close>\<close>
  "caught e = (class_of e = SubprocessError \<or> class_of e = FileNotFoundError)"

definition subprocess_run_check ::
  "backend \<Rightarrow> run_outcome \<Rightarrow> string \<Rightarrow> world \<Rightarrow> (exn + unit) \<times> world" where
  \<comment> \<open>\<^verbatim>\<open>subprocess.run(..., check=True)\<close> of one converter\<close>
  "subprocess_run_check b outcome temp_vdx w =
     (let w1 = w\<lparr>launched := launched w @ [b]\<rparr>
      in case outcome of
           Raised e \<Rightarrow> (Inl e, w1)
         | Completed returncode deposited msg \<Rightarrow>
             (let w2 = (if deposited then w1\<lparr>files := insert temp_vdx (files w1)\<rparr> else w1)
              in if returncode \<noteq> 0 then (Inl (Exn SubprocessError msg), w2)
                 else (Inr (), w2)))"

definition collect_output ::
  "exn option \<Rightarrow> exn option \<Rightarrow> string \<Rightarrow> string \<Rightarrow> world \<Rightarrow> (exn + bool) \<times> world" where
  \<comment> \<open>the check for the \<^verbatim>\<open>.vdx\<close> after a run: \<open>Inr True\<close> is \<^verbatim>\<open>return True\<close>,
      \<open>Inr False\<close> leaves the \<^verbatim>\<open>if\<close> without returning\<close>
  "collect_output copy2 remove temp_vdx output_file w =
     (if os_path_exists (files w) temp_vdx
      then (case copy2 of
              Some e \<Rightarrow> (Inl e, w)
            | None \<Rightarrow>
                (let w1 = w\<lparr>files := insert output_file (files w)\<rparr>
                 in case remove of
                      Some e \<Rightarrow> (Inl e, w1)
                    | None \<Rightarrow> (Inr True, w1\<lparr>files := files w1 - {temp_vdx}\<rparr>)))
      else (Inr False, w))"

definition unoconv_except :: "exn \<Rightarrow> world \<Rightarrow> (exn + bool) \<times> world" where
  "unoconv_except e w =
     (if caught e
      then (Inr False, logging DEBUG (''unoconv conversion failed: '' @ str_exn e) w)
      else (Inl e, w))"

definition try_unoconv ::
  "'n environment \<Rightarrow> world \<Rightarrow> string \<Rightarrow> string \<Rightarrow> string \<Rightarrow> (exn + bool) \<times> world" where
  \<comment> \<open>\<open>Inr False\<close>: the statement after the \<^verbatim>\<open>try\<close> is reached\<close>
  "try_unoconv env w input_file output_file temp_vdx =
     (case subprocess_run_check Unoconv (run_unoconv env) temp_vdx
             (logging DEBUG (''Attempting conversion with unoconv: '' @ input_file) w) of
        (Inl e, w1) \<Rightarrow> unoconv_except e w1
      | (Inr u, w1) \<Rightarrow>
          (case collect_output (copy2_unoconv env) (remove_unoconv env) temp_vdx output_file w1 of
             (Inl e, w2) \<Rightarrow> unoconv_except e w2
           | (Inr b, w2) \<Rightarrow> (Inr b, w2)))"

definition soffice_except :: "string \<Rightarrow> exn \<Rightarrow> world \<Rightarrow> (exn + bool) \<times> world" where
  "soffice_except input_file e w =
     (if caught e
      then (Inr False,
            logging ERROR (''Failed to convert '' @ input_file @ '' to VDX format.'')
              (logging DEBUG (''LibreOffice conversion failed: '' @ str_exn e) w))
      else (Inl e, w))"

definition try_soffice ::
  "'n environment \<Rightarrow> world \<Rightarrow> string \<Rightarrow> string \<Rightarrow> string \<Rightarrow> (exn + bool) \<times> world" where
  \<comment> \<open>the second \<^verbatim>\<open>try\<close> and the two statements after it; the choice of the
      executable's path on Windows changes the command line only and is left out\<close>
  "try_soffice env w input_file output_file temp_vdx =
     (case subprocess_run_check LibreOffice (run_soffice env) temp_vdx
             (logging DEBUG (''Attempting conversion with LibreOffice: '' @ input_file) w) of
        (Inl e, w1) \<Rightarrow> soffice_except input_file e w1
      | (Inr u, w1) \<Rightarrow>
          (case collect_output (copy2_soffice env) (remove_soffice env) temp_vdx output_file w1 of
             (Inl e, w2) \<Rightarrow> soffice_except input_file e w2
           | (Inr True, w2) \<Rightarrow> (Inr True, w2)
           | (Inr False, w2) \<Rightarrow>
               (Inr False, logging ERROR (''All conversion methods failed for '' @ input_file) w2)))"

definition convert_vsd_to_vdx_try ::
  "config \<Rightarrow> 'n environment \<Rightarrow> world \<Rightarrow> string \<Rightarrow> string \<Rightarrow> (exn + bool) \<times> world" where
  \<comment> \<open>the body of the outer \<^verbatim>\<open>try\<close>\<close>
  "convert_vsd_to_vdx_try cfg env w input_file output_file =
     (case makedirs env of
        Some e \<Rightarrow> (Inl e, w)
      | None \<Rightarrow>
          (let w1 = w\<lparr>files := insert (temp_dir cfg) (files w)\<rparr>;
               base_name = fst (os_path_splitext (os_path_basename input_file));
               temp_vdx = os_path_join (temp_dir cfg) (base_name @ ''.vdx'')
           in case try_unoconv env w1 input_file output_file temp_vdx of
                (Inl e, w2) \<Rightarrow> (Inl e, w2)
              | (Inr True, w2) \<Rightarrow> (Inr True, w2)
              | (Inr False, w2) \<Rightarrow> try_soffice env w2 input_file output_file temp_vdx))"

definition inside :: "string \<Rightarrow> string \<Rightarrow> bool" where
  \<comment> \<open>the directory itself or a path below it\<close>
  "inside d p = (p = d \<or> prefix (d @ [sep]) p)"

definition cleanup :: "config \<Rightarrow> 'n environment \<Rightarrow> world \<Rightarrow> world" where
  \<comment> \<open>the \<^verbatim>\<open>finally\<close> clause; \<^verbatim>\<open>except: pass\<close> drops a failure of \<^verbatim>\<open>rmtree\<close>\<close>
  "cleanup cfg env w =
     (if os_path_exists (files w) (temp_dir cfg)
      then (case rmtree env of
              None \<Rightarrow> w\<lparr>files := Set.filter (\<lambda>p. \<not> inside (temp_dir cfg) p) (files w)\<rparr>
            | Some e \<Rightarrow> w)
      else w)"

definition convert_vsd_to_vdx ::
  "config \<Rightarrow> 'n environment \<Rightarrow> world \<Rightarrow> string \<Rightarrow> string \<Rightarrow> bool \<times> world" where
  "convert_vsd_to_vdx cfg env w input_file output_file =
     (case convert_vsd_to_vdx_try cfg env w input_file output_file of
        (Inr b, w1) \<Rightarrow> (b, cleanup cfg env w1)
      | (Inl e, w1) \<Rightarrow>
          (False,
           cleanup cfg env
             (logging_traceback e
                (logging ERROR (''Error during VSD to VDX conversion: '' @ str_exn e) w1))))"

text \<open>
  How one attempt ends, read off the outcomes of its operations: \<open>present\<close> says
  whether the expected \<^verbatim>\<open>.vdx\<close> was in the scratch directory before the launch. An
  attempt succeeds when the process exits with status 0, the file is there afterwards, and
  the copy and the removal raise nothing; the next backend is tried when the attempt ends
  in an exception of the two classes caught, or without exception and without the file.
\<close>

definition temp_vdx_of :: "config \<Rightarrow> string \<Rightarrow> string" where
  "temp_vdx_of cfg input_file =
     os_path_join (temp_dir cfg) (fst (os_path_splitext (os_path_basename input_file)) @ ''.vdx'')"

definition deposited :: "run_outcome \<Rightarrow> bool" where
  "deposited outcome = (case outcome of Raised e \<Rightarrow> False | Completed returncode d msg \<Rightarrow> d)"

definition attempt_succeeds :: "run_outcome \<Rightarrow> exn option \<Rightarrow> exn option \<Rightarrow> bool \<Rightarrow> bool" where
  "attempt_succeeds outcome copy2 remove present =
     (case outcome of
        Raised e \<Rightarrow> False
      | Completed returncode d msg \<Rightarrow>
          returncode = 0 \<and> (d \<or> present) \<and> copy2 = None \<and> remove = None)"

definition attempt_exception ::
  "run_outcome \<Rightarrow> exn option \<Rightarrow> exn option \<Rightarrow> bool \<Rightarrow> exn option" where
  "attempt_exception outcome copy2 remove present =
     (case outcome of
        Raised e \<Rightarrow> Some e
      | Completed returncode d msg \<Rightarrow>
          if returncode \<noteq> 0 then Some (Exn SubprocessError msg)
          else if d \<or> present then (case copy2 of Some e \<Rightarrow> Some e | None \<Rightarrow> remove)
          else None)"

definition next_backend_tried ::
  "run_outcome \<Rightarrow> exn option \<Rightarrow> exn option \<Rightarrow> bool \<Rightarrow> bool" where
  "next_backend_tried outcome copy2 remove present =
     (case attempt_exception outcome copy2 remove present of
        Some e \<Rightarrow> caught e
      | None \<Rightarrow> \<not> attempt_succeeds outcome copy2 remove present)"

section \<open>Processing one file\<close>

text \<open>
  The result dictionary, its keys prefixed with \<open>res_\<close>, without the \<^verbatim>\<open>time\<close> entry
  (a float no statement here reads);
  the text of \<^verbatim>\<open>{processing_time:.2f}\<close> in the log line is \<open>elapsed_2f\<close>.
\<close>

record conversion_result =
  res_filename :: string
  res_output :: "string option"
  res_archive :: "string option"
  res_success :: bool
  res_error :: "string option"

definition check_mark :: string where
  \<comment> \<open>U+2705 in UTF-8\<close>
  "check_mark = [CHR 0xE2, CHR 0x9C, CHR 0x85]"

definition cross_mark :: string where
  \<comment> \<open>U+274C in UTF-8\<close>
  "cross_mark = [CHR 0xE2, CHR 0x9D, CHR 0x8C]"

definition convert_by_extension ::
  "config \<Rightarrow> 'n environment \<Rightarrow> world \<Rightarrow> string \<Rightarrow> string \<Rightarrow> string \<Rightarrow> bool \<Rightarrow> bool
     \<Rightarrow> (exn + bool) \<times> world" where
  \<comment> \<open>the \<^verbatim>\<open>if\<close>/\<^verbatim>\<open>elif\<close>/\<^verbatim>\<open>else\<close> on the extension; the value is \<^verbatim>\<open>success\<close>\<close>
  "convert_by_extension cfg env w input_file output_file ext vsdx_support vsd_support =
     (if ext \<in> set [''.vsdx'', ''.vsdm'']
      then (if vsdx_support then convert_vsdx_to_vdx cfg env w input_file output_file
            else (Inr False,
                  logging ERROR (''Cannot process '' @ ext @ '' files: vsdx library not available'') w))
      else if ext \<in> set [''.vsd'', ''.vdw'']
      then (if vsd_support
            then (case convert_vsd_to_vdx cfg env w input_file output_file of
                    (b, w1) \<Rightarrow> (Inr b, w1))
            else (Inr False,
                  logging ERROR
                    (''Cannot process '' @ ext @ '' files: LibreOffice/unoconv not available'') w))
      else (Inr False, logging ERROR (''Unsupported file extension: '' @ ext) w))"

definition process_file_try ::
  "config \<Rightarrow> 'n environment \<Rightarrow> world \<Rightarrow> string \<Rightarrow> string \<Rightarrow> string \<Rightarrow> bool \<Rightarrow> bool
     \<Rightarrow> (exn + conversion_result) \<times> world" where
  \<comment> \<open>the body of the \<^verbatim>\<open>try\<close> of \<^verbatim>\<open>process_file\<close>\<close>
  "process_file_try cfg env w input_file output_file archive_file vsdx_support vsd_support =
     (let fname = os_path_basename input_file;
          ext = lower (snd (os_path_splitext fname))
      in case convert_by_extension cfg env w input_file output_file ext vsdx_support vsd_support of
           (Inl e, w1) \<Rightarrow> (Inl e, w1)
         | (Inr True, w1) \<Rightarrow>
             (case move env of
                Some e \<Rightarrow>
                  (Inl e,
                   if move_leaves_copy env then w1\<lparr>files := insert archive_file (files w1)\<rparr>
                   else w1)
              | None \<Rightarrow>
                  (Inr \<lparr>res_filename = fname,
                        res_output = Some (os_path_basename output_file),
                        res_archive = Some (os_path_basename archive_file),
                        res_success = True,
                        res_error = None\<rparr>,
                   logging INFO
                     (check_mark @ '' Conversion successful: '' @ os_path_basename output_file
                        @ '' ('' @ elapsed_2f env @ ''s)'')
                     (w1\<lparr>files := insert archive_file (files w1 - {input_file})\<rparr>)))
         | (Inr False, w1) \<Rightarrow>
             (Inr \<lparr>res_filename = fname, res_output = None, res_archive = None, res_success = False,
                   res_error = Some ''Conversion process failed''\<rparr>,
              logging ERROR (cross_mark @ '' Conversion failed: '' @ fname) w1))"

definition process_file ::
  "config \<Rightarrow> 'n environment \<Rightarrow> world \<Rightarrow> string \<Rightarrow> bool \<Rightarrow> bool
     \<Rightarrow> (conversion_result \<times> world) option" where
  \<comment> \<open>\<open>None\<close>: a probe for a free name never returns\<close>
  "process_file cfg env w input_file vsdx_support vsd_support =
     (let fname = os_path_basename input_file;
          base_name = fst (os_path_splitext fname)
      in case get_unique_filename (files w) (os_path_join (OUTPUT_DIR cfg) (base_name @ ''.vdx'')) of
           None \<Rightarrow> None
         | Some output_file \<Rightarrow>
             (case get_unique_filename (files w) (os_path_join (ARCHIVE_DIR cfg) fname) of
                None \<Rightarrow> None
              | Some archive_file \<Rightarrow>
                  (case process_file_try cfg env (logging INFO (''Processing: '' @ fname) w)
                          input_file output_file archive_file vsdx_support vsd_support of
                     (Inr r, w1) \<Rightarrow> Some (r, w1)
                   | (Inl e, w1) \<Rightarrow>
                       Some (\<lparr>res_filename = fname, res_output = None, res_archive = None, res_success = False,
                              res_error = Some (str_exn e)\<rparr>,
                             logging_traceback e
                               (logging ERROR
                                  (cross_mark @ '' Error processing '' @ fname @ '': '' @ str_exn e)
                                  w1)))))"

section \<open>The batch\<close>

datatype probe = Found | NotFound | ProbeError exn

definition check_dependencies ::
  "config \<Rightarrow> probe \<Rightarrow> bool \<Rightarrow> world \<Rightarrow> (bool \<times> bool \<times> string list) \<times> world" where
  \<comment> \<open>the outcome of the lookup of LibreOffice (found, not found, or the lookup itself
      raised) and of \<^verbatim>\<open>unoconv\<close> (on the path or not) is given; the debug lines
      that report where a tool was found are left out\<close>
  "check_dependencies cfg soffice_probe has_unoconv w =
     (let w1 = (if \<not> VSDX_SUPPORT cfg
                then logging WARNING
                       ''vsdx module not found. .vsdx and .vsdm processing will be limited.'' w
                else w);
          w2 = (case soffice_probe of
                  Found \<Rightarrow> w1
                | NotFound \<Rightarrow>
                    logging WARNING
                      ''LibreOffice not found. .vsd and .vdw processing will be limited.'' w1
                | ProbeError e \<Rightarrow>
                    logging ERROR (''Error checking for LibreOffice: '' @ str_exn e) w1);
          w3 = (if has_unoconv then w2
                else logging WARNING
                       ''unoconv not found. .vsd and .vdw processing will be limited.'' w2);
          missing_deps =
            (if \<not> VSDX_SUPPORT cfg then [''vsdx''] else []) @
            (if soffice_probe = NotFound then [''LibreOffice''] else []) @
            (if has_unoconv then [] else [''unoconv''])
      in ((VSDX_SUPPORT cfg, soffice_probe = Found \<or> has_unoconv, missing_deps), w3))"




section \<open>A concrete installation, used to run the model\<close>

definition cfg_ex :: config where
  "cfg_ex = \<lparr>SCRIPT_DIR = ''/app'', VSDX_SUPPORT = True, PROGRESS_BAR_SUPPORT = False\<rparr>"

definition drawing_ex :: "nat drawing" where
  "drawing_ex =
     \<lparr>pages =
        [\<lparr>page_name = ''Page-1'', page_width = 8, page_height = 11,
          page_shapes =
            [\<lparr>shape_name = Some ''Box'', shape_x = Some 1, shape_y = Some 2,
              shape_width = Some 3, shape_height = Some 4\<rparr>,
             \<lparr>shape_name = None, shape_x = None, shape_y = None,
              shape_width = Some 3, shape_height = Some 4\<rparr>,
             \<lparr>shape_name = Some [], shape_x = Some 12, shape_y = Some 2,
              shape_width = None, shape_height = None\<rparr>]\<rparr>,
         \<lparr>page_name = ''Page-2'', page_width = 8, page_height = 11, page_shapes = []\<rparr>]\<rparr>"

definition env_ex :: "nat environment" where
  "env_ex =
     \<lparr>py_str = str_nat, VisioFile = Inr drawing_ex, tree_write = None,
      tree_write_leaves_file = False, makedirs = None,
      run_unoconv = Completed 0 True [], copy2_unoconv = None, remove_unoconv = None,
      run_soffice = Completed 0 True [], copy2_soffice = None, remove_soffice = None,
      rmtree = None, move = None, move_leaves_copy = False, elapsed_2f = ''0.10''\<rparr>"

definition w_ex :: world where
  "w_ex = \<lparr>files = {''/app/input/a.vsdx'', ''/app/input/b.vsd''}, documents = Map.empty,
           log = [], launched = []\<rparr>"

definition w_foo :: world where
  "w_foo = \<lparr>files = {''/app/input/foo.vsdx'', ''/app/output/foo.vdx'', ''/app/output/foo_1.vdx''},
            documents = Map.empty, log = [], launched = []\<rparr>"

text \<open>The same installation with one operation failing.\<close>

definition permission_denied :: exn where
  "permission_denied = Exn OtherException ''[Errno 13] Permission denied''"



definition env_rmtree_fails :: "nat environment" where
  "env_rmtree_fails = env_ex\<lparr>rmtree := Some permission_denied\<rparr>"

definition env_makedirs_fails :: "nat environment" where
  "env_makedirs_fails = env_ex\<lparr>makedirs := Some permission_denied\<rparr>"

definition env_exit1 :: "nat environment" where
  "env_exit1 =
     env_ex\<lparr>run_unoconv := Completed 1 True ''Command returned non-zero exit status 1.'',
            run_soffice := Raised (Exn FileNotFoundError ''[Errno 2] No such file or directory'')\<rparr>"

definition env_unoconv_denied :: "nat environment" where
  "env_unoconv_denied = env_ex\<lparr>run_unoconv := Raised permission_denied\<rparr>"

definition env_fallback :: "nat environment" where
  "env_fallback =
     env_ex\<lparr>run_unoconv := Completed 1 False ''Command returned non-zero exit status 1.''\<rparr>"

section \<open>Decimal rendering and path algebra\<close>

lemma digit_char_inj: "d < 10 \<Longrightarrow> d' < 10 \<Longrightarrow> digit_char d = digit_char d' \<Longrightarrow> d = d'"
  unfolding digit_char_def
  by (subst (asm) nth_eq_iff_index_eq) simp_all

lemma str_nat_not_Nil: "str_nat n \<noteq> []"
  by (subst str_nat.simps) simp

lemma str_nat_inj: "str_nat m = str_nat n \<Longrightarrow> m = n"
proof (induction m arbitrary: n rule: str_nat.induct)
  case (1 m)
  show ?case
  proof (cases "m < 10")
    case True
    then have m: "str_nat m = [digit_char m]"
      by (subst str_nat.simps) simp
    show ?thesis
    proof (cases "n < 10")
      case True
      then have "str_nat n = [digit_char n]"
        by (subst str_nat.simps) simp
      with m "1.prems" have "digit_char m = digit_char n" by simp
      with \<open>m < 10\<close> True show ?thesis by (rule digit_char_inj)
    next
      case False
      then have "str_nat n = str_nat (n div 10) @ [digit_char (n mod 10)]"
        by (subst str_nat.simps) simp
      with m "1.prems" have "str_nat (n div 10) = []" by simp
      then show ?thesis by (simp add: str_nat_not_Nil)
    qed
  next
    case False
    then have m: "str_nat m = str_nat (m div 10) @ [digit_char (m mod 10)]"
      by (subst str_nat.simps) simp
    show ?thesis
    proof (cases "n < 10")
      case True
      then have "str_nat n = [digit_char n]"
        by (subst str_nat.simps) simp
      with m "1.prems" have "str_nat (m div 10) = []" by simp
      then show ?thesis by (simp add: str_nat_not_Nil)
    next
      case n: False
      then have "str_nat n = str_nat (n div 10) @ [digit_char (n mod 10)]"
        by (subst str_nat.simps) simp
      with m "1.prems" have eq: "str_nat (m div 10) = str_nat (n div 10)"
        and d: "digit_char (m mod 10) = digit_char (n mod 10)" by simp_all
      from "1.IH" [OF False eq] have "m div 10 = n div 10" .
      moreover from d have "m mod 10 = n mod 10"
        by (intro digit_char_inj) simp_all
      ultimately show ?thesis by (metis div_mult_mod_eq)
    qed
  qed
qed

lemma startswith_sep_append: "a \<noteq> [] \<Longrightarrow> startswith_sep (a @ b) = startswith_sep a"
  by (cases a) (simp_all add: startswith_sep_def)

lemma not_startswith_sep: "sep \<notin> set t \<Longrightarrow> \<not> startswith_sep t"
  by (cases t) (auto simp: startswith_sep_def)

lemma os_path_join_append:
  assumes "b \<noteq> []"
  shows "\<exists>pre. \<forall>x. os_path_join a (b @ x) = pre @ b @ x"
proof (cases "startswith_sep b")
  case True
  then have "\<forall>x. os_path_join a (b @ x) = [] @ b @ x"
    by (simp add: os_path_join_def startswith_sep_append [OF assms])
  then show ?thesis by blast
next
  case False
  show ?thesis
  proof (cases "a = [] \<or> endswith_sep a")
    case True
    with False have "\<forall>x. os_path_join a (b @ x) = a @ b @ x"
      by (simp add: os_path_join_def startswith_sep_append [OF assms])
    then show ?thesis by blast
  next
    case F2: False
    with False have "\<forall>x. os_path_join a (b @ x) = (a @ [sep]) @ b @ x"
      by (simp add: os_path_join_def startswith_sep_append [OF assms])
    then show ?thesis by blast
  qed
qed

lemma os_path_join_plain:
  assumes "d \<noteq> []" "last d \<noteq> sep" "\<not> startswith_sep t"
  shows "os_path_join d t = d @ [sep] @ t"
  using assms by (simp add: os_path_join_def endswith_sep_def)

lemma rfind_append_sep:
  assumes "c \<notin> set t"
  shows "rfind (h @ [c] @ t) c = int (length h)"
proof -
  have "takeWhile (\<lambda>x. x \<noteq> c) (rev t) = rev t"
    using assms by auto
  then have "takeWhile (\<lambda>x. x \<noteq> c) (rev t @ c # rev h) = rev t"
    by (simp add: takeWhile_tail)
  then show ?thesis by (simp add: rfind_def)
qed

lemma rstrip_sep_id: "d \<noteq> [] \<Longrightarrow> last d \<noteq> sep \<Longrightarrow> rstrip_sep d = d"
  by (cases d rule: rev_cases) (simp_all add: rstrip_sep_def)

lemma os_path_split_join:
  assumes "d \<noteq> []" "last d \<noteq> sep" "sep \<notin> set t"
  shows "os_path_split (os_path_join d t) = (d, t)"
proof -
  define p where "p = d @ [sep] @ t"
  have j: "os_path_join d t = p"
    using assms by (simp add: os_path_join_plain not_startswith_sep p_def)
  have "rfind p sep = int (length d)"
    unfolding p_def using assms(3) by (rule rfind_append_sep)
  then have i: "nat (rfind p sep + 1) = Suc (length d)" by simp
  have tk: "take (Suc (length d)) p = d @ [sep]" and dp: "drop (Suc (length d)) p = t"
    by (simp_all add: p_def)
  have "last d \<in> set (d @ [sep])"
    using assms(1) by simp
  with assms(2) have ne: "d @ [sep] \<noteq> replicate (length (d @ [sep])) sep"
    by (metis in_set_replicate)
  have rs: "rstrip_sep (d @ [sep]) = d"
    using assms(1,2) rstrip_sep_id [of d] by (simp add: rstrip_sep_def)
  show ?thesis
    unfolding j os_path_split_def Let_def i tk dp using ne rs by simp
qed

lemma set_fst_splitext: "set (fst (os_path_splitext t)) \<subseteq> set t"
  by (auto simp: os_path_splitext_def Let_def dest: in_set_takeD)

lemma sep_notin_basename: "sep \<notin> set (os_path_basename p)"
proof (cases "sep \<in> set p")
  case False
  then show ?thesis by (auto simp: os_path_basename_def dest: in_set_dropD)
next
  case True
  then obtain h t where p: "p = h @ sep # t" and t: "sep \<notin> set t"
    by (meson split_list_last)
  have "rfind (h @ [sep] @ t) sep = int (length h)"
    using t by (rule rfind_append_sep)
  with p t show ?thesis by (simp add: os_path_basename_def nat_add_distrib)
qed

section \<open>The probe for a free name\<close>

lemma new_filepath_inj:
  assumes "new_filepath directory name ext j = new_filepath directory name ext k"
  shows "j = k"
proof -
  obtain pre where pre: "\<And>x. os_path_join directory ((name @ ''_'') @ x) = pre @ (name @ ''_'') @ x"
    using os_path_join_append [of "name @ ''_''" directory] by auto
  have "new_filepath directory name ext i = pre @ (name @ ''_'') @ str_nat i @ ext" for i
    using pre [of "str_nat i @ ext"] by (simp add: new_filepath_def)
  with assms have "str_nat j = str_nat k" by simp
  then show ?thesis by (rule str_nat_inj)
qed

lemma free_suffix_exists:
  assumes "finite fs"
  shows "\<exists>j\<ge>k. new_filepath directory name ext j \<notin> fs"
proof (rule ccontr)
  assume "\<not> ?thesis"
  then have sub: "new_filepath directory name ext ` {k..} \<subseteq> fs" by auto
  have "inj_on (new_filepath directory name ext) {k..}"
    by (rule inj_onI) (rule new_filepath_inj)
  then have "infinite (new_filepath directory name ext ` {k..})"
    using infinite_Ici finite_imageD by blast
  with sub assms show False using finite_subset by blast
qed

lemma loop_reaches:
  assumes "new_filepath directory name ext j \<notin> fs"
    and "\<forall>i. k \<le> i \<and> i < j \<longrightarrow> new_filepath directory name ext i \<in> fs"
    and "k \<le> j"
  shows "get_unique_filename_loop fs directory name ext k = Some (new_filepath directory name ext j)"
  using assms
proof (induction "j - k" arbitrary: k)
  case 0
  then have "k = j" by simp
  with "0.prems"(1) show ?case
    by (subst get_unique_filename_loop.simps) (simp add: os_path_exists_def)
next
  case (Suc d)
  then have lt: "k < j" by simp
  with Suc.prems(2) have "new_filepath directory name ext k \<in> fs" by simp
  then have "get_unique_filename_loop fs directory name ext k =
             get_unique_filename_loop fs directory name ext (k + 1)"
    by (subst get_unique_filename_loop.simps) (simp add: os_path_exists_def)
  moreover have "get_unique_filename_loop fs directory name ext (k + 1) =
                 Some (new_filepath directory name ext j)"
    using Suc.hyps(2) Suc.prems lt by (intro Suc.hyps(1)) auto
  ultimately show ?case by simp
qed

lemma loop_terminates:
  assumes "finite fs"
  shows "\<exists>j\<ge>k. get_unique_filename_loop fs directory name ext k = Some (new_filepath directory name ext j)
           \<and> new_filepath directory name ext j \<notin> fs
           \<and> (\<forall>i. k \<le> i \<and> i < j \<longrightarrow> new_filepath directory name ext i \<in> fs)"
proof -
  define P where "P j \<longleftrightarrow> k \<le> j \<and> new_filepath directory name ext j \<notin> fs" for j
  from free_suffix_exists [OF assms, of k directory name ext] have "\<exists>j. P j"
    by (auto simp: P_def)
  then have L: "P (LEAST j. P j)" by (rule LeastI_ex)
  define j where "j = (LEAST j. P j)"
  have min: "\<forall>i. k \<le> i \<and> i < j \<longrightarrow> new_filepath directory name ext i \<in> fs"
  proof (intro allI impI)
    fix i assume i: "k \<le> i \<and> i < j"
    then have "\<not> P i" unfolding j_def using not_less_Least by blast
    with i show "new_filepath directory name ext i \<in> fs" by (simp add: P_def)
  qed
  from L have kj: "k \<le> j" and free: "new_filepath directory name ext j \<notin> fs"
    by (simp_all add: P_def j_def)
  from loop_reaches [OF free min kj] free min kj show ?thesis by blast
qed

lemma get_unique_filename_exists:
  assumes "finite fs" "os_path_exists fs filepath"
  shows "\<exists>k\<ge>1. get_unique_filename fs filepath = Some (suffixed filepath k)
           \<and> \<not> os_path_exists fs (suffixed filepath k)
           \<and> (\<forall>j. 1 \<le> j \<and> j < k \<longrightarrow> os_path_exists fs (suffixed filepath j))"
proof -
  obtain directory filename where sp: "os_path_split filepath = (directory, filename)"
    by (cases "os_path_split filepath")
  obtain name ext where se: "os_path_splitext filename = (name, ext)"
    by (cases "os_path_splitext filename")
  have sf: "suffixed filepath k = new_filepath directory name ext k" for k
    by (simp add: suffixed_def sp se)
  have g: "get_unique_filename fs filepath = get_unique_filename_loop fs directory name ext 1"
    using assms(2) by (simp add: get_unique_filename_def sp se)
  from loop_terminates [OF assms(1), of 1 directory name ext]
  show ?thesis unfolding g sf os_path_exists_def by blast
qed

lemma get_unique_filename_total:
  assumes "finite fs"
  shows "\<exists>p. get_unique_filename fs filepath = Some p \<and> p \<notin> fs"
proof (cases "os_path_exists fs filepath")
  case False
  then show ?thesis by (simp add: get_unique_filename_def os_path_exists_def)
next
  case True
  from get_unique_filename_exists [OF assms True] show ?thesis
    unfolding os_path_exists_def by blast
qed

text \<open>
  Claim C10. When the set of existing paths is finite (and, the model being sequential,
  unchanged while the probe runs), the probing loop of \<^verbatim>\<open>get_unique_filename\<close> ends:
  the function returns a path, and no file exists at the path it returns.
\<close>

theorem get_unique_filename_terminates:
  assumes "finite fs"
  shows "\<exists>p. get_unique_filename fs filepath = Some p \<and> \<not> os_path_exists fs p"
proof (cases "os_path_exists fs filepath")
  case False
  then show ?thesis by (simp add: get_unique_filename_def)
next
  case True
  from get_unique_filename_exists [OF assms True] show ?thesis by blast
qed

theorem get_unique_filename_terminates_witness:
  "finite {''/app/output/foo.vdx'', ''/app/output/foo_1.vdx''} \<and>
   (\<exists>p. get_unique_filename {''/app/output/foo.vdx'', ''/app/output/foo_1.vdx''}
           ''/app/output/foo.vdx'' = Some p
        \<and> \<not> os_path_exists {''/app/output/foo.vdx'', ''/app/output/foo_1.vdx''} p)"
  using get_unique_filename_terminates
          [of "{''/app/output/foo.vdx'', ''/app/output/foo_1.vdx''}" "''/app/output/foo.vdx''"]
  by simp

section \<open>Running the model on concrete inputs\<close>

lemmas path_defs = os_path_join_def os_path_split_def os_path_splitext_def os_path_basename_def
  rfind_def sep_def extsep_def rstrip_sep_def startswith_sep_def endswith_sep_def
  os_path_exists_def lower_def lower_char_def

section \<open>The result record of \<^verbatim>\<open>process_file\<close>\<close>

lemma process_file_try_Inr:
  assumes "process_file_try cfg env w input_file output_file archive_file vsdx_support vsd_support = (Inr r, w1)"
  shows "(res_success r \<and> res_output r = Some (os_path_basename output_file)
            \<and> res_archive r = Some (os_path_basename archive_file) \<and> res_error r = None) \<or>
         (\<not> res_success r \<and> res_output r = None \<and> res_archive r = None
            \<and> res_error r = Some ''Conversion process failed'')"
  using assms
  by (auto simp: process_file_try_def Let_def split: prod.splits sum.splits bool.splits option.splits)

lemma process_file_SomeD:
  assumes "process_file cfg env w input_file vsdx_support vsd_support = Some (r, w')"
  obtains output_file archive_file where
    "get_unique_filename (files w)
       (os_path_join (OUTPUT_DIR cfg) (fst (os_path_splitext (os_path_basename input_file)) @ ''.vdx''))
       = Some output_file"
    "get_unique_filename (files w) (os_path_join (ARCHIVE_DIR cfg) (os_path_basename input_file))
       = Some archive_file"
    "(\<exists>w1. process_file_try cfg env
        (logging INFO (''Processing: '' @ os_path_basename input_file) w)
        input_file output_file archive_file vsdx_support vsd_support = (Inr r, w'))
     \<or> (\<exists>e w1. process_file_try cfg env
        (logging INFO (''Processing: '' @ os_path_basename input_file) w)
        input_file output_file archive_file vsdx_support vsd_support = (Inl e, w1)
        \<and> r = \<lparr>res_filename = os_path_basename input_file, res_output = None, res_archive = None,
                res_success = False, res_error = Some (str_exn e)\<rparr>
        \<and> w' = logging_traceback e
               (logging ERROR (cross_mark @ '' Error processing '' @ os_path_basename input_file
                                 @ '': '' @ str_exn e) w1))"
  using assms
  by (auto simp: process_file_def Let_def split: option.splits prod.splits sum.splits)

text \<open>
  Claim C1. Every result that \<^verbatim>\<open>process_file\<close> returns is of one of two shapes: with
  the success flag set, the output and the archive file names are present and the error
  description is absent; with the flag clear, both names are absent and an error
  description is present.
\<close>

theorem process_file_result_invariant:
  assumes "process_file cfg env w input_file vsdx_support vsd_support = Some (r, w')"
  shows "(res_success r \<longrightarrow> res_output r \<noteq> None \<and> res_archive r \<noteq> None \<and> res_error r = None) \<and>
         (\<not> res_success r \<longrightarrow> res_output r = None \<and> res_archive r = None \<and> res_error r \<noteq> None)"
  using assms
  by (elim process_file_SomeD) (auto dest!: process_file_try_Inr)

theorem process_file_result_invariant_witness:
  "\<exists>r w'. process_file cfg_ex env_ex w_ex ''/app/input/a.vsdx'' True True = Some (r, w')
      \<and> res_success r \<and> res_output r \<noteq> None \<and> res_archive r \<noteq> None \<and> res_error r = None"
proof -
  have "(case process_file cfg_ex env_ex w_ex ''/app/input/a.vsdx'' True True of
           None \<Rightarrow> False
         | Some (r, w') \<Rightarrow> res_success r)"
    by code_simp
  then have "\<exists>r w'. process_file cfg_ex env_ex w_ex ''/app/input/a.vsdx'' True True = Some (r, w')
          \<and> res_success r"
    by (auto split: option.splits)
  then obtain r w' where
    ev: "process_file cfg_ex env_ex w_ex ''/app/input/a.vsdx'' True True = Some (r, w')"
    and ok: "res_success r" by blast
  from process_file_result_invariant [OF ev] ok ev show ?thesis by blast
qed

section \<open>Names after a collision\<close>

lemma OUTPUT_DIR_shape: "OUTPUT_DIR cfg \<noteq> [] \<and> last (OUTPUT_DIR cfg) \<noteq> sep"
  by (simp add: OUTPUT_DIR_def os_path_join_def startswith_sep_def sep_def)

lemma splitext_foo: "os_path_splitext ''foo.vdx'' = (''foo'', ''.vdx'')"
  by (simp add: os_path_splitext_def rfind_def sep_def extsep_def)

lemma str_nat_small: "str_nat (Suc 0) = ''1''" "str_nat 1 = ''1''" "str_nat 2 = ''2''"
  by (simp_all add: str_nat.simps digit_char_def)

lemma suffixed_join:
  assumes "d \<noteq> []" "last d \<noteq> sep" "sep \<notin> set t"
  shows "suffixed (os_path_join d t) k =
         d @ [sep] @ fst (os_path_splitext t) @ ''_'' @ str_nat k @ snd (os_path_splitext t)"
proof -
  have "sep \<notin> set (fst (os_path_splitext t) @ ''_'')"
    using assms(3) set_fst_splitext [of t] by (auto simp: sep_def)
  then have "\<not> startswith_sep (fst (os_path_splitext t) @ ''_'')"
    by (rule not_startswith_sep)
  then have "\<not> startswith_sep ((fst (os_path_splitext t) @ ''_'')
                                 @ str_nat k @ snd (os_path_splitext t))"
    by (subst startswith_sep_append) simp_all
  then have "os_path_join d ((fst (os_path_splitext t) @ ''_'') @ str_nat k @ snd (os_path_splitext t))
             = d @ [sep] @ (fst (os_path_splitext t) @ ''_'') @ str_nat k @ snd (os_path_splitext t)"
    using assms(1,2) by (rule os_path_join_plain [rotated 2])
  then show ?thesis
    by (simp add: suffixed_def os_path_split_join [OF assms] new_filepath_def case_prod_beta)
qed

lemma get_unique_filename_foo:
  assumes "d \<noteq> []" "last d \<noteq> sep"
  shows "get_unique_filename fs (os_path_join d ''foo.vdx'') =
         (if \<not> os_path_exists fs (os_path_join d ''foo.vdx'') then Some (os_path_join d ''foo.vdx'')
          else if \<not> os_path_exists fs (os_path_join d ''foo_1.vdx'') then Some (os_path_join d ''foo_1.vdx'')
          else if \<not> os_path_exists fs (os_path_join d ''foo_2.vdx'') then Some (os_path_join d ''foo_2.vdx'')
          else get_unique_filename_loop fs d ''foo'' ''.vdx'' 3)"
proof -
  have sp: "os_path_split (os_path_join d ''foo.vdx'') = (d, ''foo.vdx'')"
    using assms by (rule os_path_split_join) (simp add: sep_def)
  have n1: "new_filepath d ''foo'' ''.vdx'' 1 = os_path_join d ''foo_1.vdx''"
    and n2: "new_filepath d ''foo'' ''.vdx'' 2 = os_path_join d ''foo_2.vdx''"
    by (simp_all add: new_filepath_def str_nat_small)
  have l1: "get_unique_filename_loop fs d ''foo'' ''.vdx'' 1 =
        (if \<not> os_path_exists fs (os_path_join d ''foo_1.vdx'') then Some (os_path_join d ''foo_1.vdx'')
         else get_unique_filename_loop fs d ''foo'' ''.vdx'' 2)"
    using get_unique_filename_loop.simps [of fs d "''foo''" "''.vdx''" 1]
    unfolding n1 one_add_one .
  have three: "(2::nat) + 1 = 3" by simp
  have l2: "get_unique_filename_loop fs d ''foo'' ''.vdx'' 2 =
        (if \<not> os_path_exists fs (os_path_join d ''foo_2.vdx'') then Some (os_path_join d ''foo_2.vdx'')
         else get_unique_filename_loop fs d ''foo'' ''.vdx'' 3)"
    using get_unique_filename_loop.simps [of fs d "''foo''" "''.vdx''" 2]
    unfolding n2 three .
  show ?thesis
    unfolding get_unique_filename_def sp splitext_foo prod.case l1 l2 by simp
qed

lemma process_file_names:
  assumes "process_file cfg env w input_file vsdx_support vsd_support = Some (r, w')"
    and "res_success r"
  shows "\<exists>output_file archive_file.
           get_unique_filename (files w)
             (os_path_join (OUTPUT_DIR cfg)
                (fst (os_path_splitext (os_path_basename input_file)) @ ''.vdx'')) = Some output_file
         \<and> res_output r = Some (os_path_basename output_file)
         \<and> get_unique_filename (files w)
             (os_path_join (ARCHIVE_DIR cfg) (os_path_basename input_file)) = Some archive_file
         \<and> res_archive r = Some (os_path_basename archive_file)"
  using assms
  by (elim process_file_SomeD) (auto dest!: process_file_try_Inr)

text \<open>
  Claim C4. In a file system with finitely many paths, \<^verbatim>\<open>get_unique_filename\<close> returns
  the path itself when nothing exists there. Otherwise it returns the path with \<open>_k\<close>
  put before the extension (\<open>suffixed\<close>: directory, name and extension as
  \<^verbatim>\<open>os.path.split\<close> and \<^verbatim>\<open>os.path.splitext\<close> cut them), for the least \<open>k \<ge> 1\<close>
  whose path does not exist. With \<^verbatim>\<open>foo.vdx\<close> in the output directory the answer is
  \<^verbatim>\<open>foo_1.vdx\<close>, with both present it is \<^verbatim>\<open>foo_2.vdx\<close>. \<^verbatim>\<open>process_file\<close> probes
  once for the output path and once for the archive path, and a successful result carries
  the base names of the two answers. For a file name \<open>t\<close> in a directory \<open>d\<close> (written
  without a trailing separator) the suffixed path is \<open>d/name_k.ext\<close> letter by letter.
\<close>

theorem get_unique_filename_smallest_suffix:
  assumes "finite (files w)"
  shows "(\<not> os_path_exists (files w) filepath \<longrightarrow> get_unique_filename (files w) filepath = Some filepath)
       \<and> (os_path_exists (files w) filepath \<longrightarrow>
            (\<exists>k\<ge>1. get_unique_filename (files w) filepath = Some (suffixed filepath k)
                 \<and> \<not> os_path_exists (files w) (suffixed filepath k)
                 \<and> (\<forall>j. 1 \<le> j \<and> j < k \<longrightarrow> os_path_exists (files w) (suffixed filepath j))))
       \<and> (os_path_exists (files w) (os_path_join (OUTPUT_DIR cfg) ''foo.vdx'')
            \<and> \<not> os_path_exists (files w) (os_path_join (OUTPUT_DIR cfg) ''foo_1.vdx'') \<longrightarrow>
          get_unique_filename (files w) (os_path_join (OUTPUT_DIR cfg) ''foo.vdx'')
            = Some (os_path_join (OUTPUT_DIR cfg) ''foo_1.vdx''))
       \<and> (os_path_exists (files w) (os_path_join (OUTPUT_DIR cfg) ''foo.vdx'')
            \<and> os_path_exists (files w) (os_path_join (OUTPUT_DIR cfg) ''foo_1.vdx'')
            \<and> \<not> os_path_exists (files w) (os_path_join (OUTPUT_DIR cfg) ''foo_2.vdx'') \<longrightarrow>
          get_unique_filename (files w) (os_path_join (OUTPUT_DIR cfg) ''foo.vdx'')
            = Some (os_path_join (OUTPUT_DIR cfg) ''foo_2.vdx''))
       \<and> (\<forall>r w'. process_file cfg env w input_file vsdx_support vsd_support = Some (r, w')
                 \<and> res_success r \<longrightarrow>
            (\<exists>output_file archive_file.
               get_unique_filename (files w)
                 (os_path_join (OUTPUT_DIR cfg)
                    (fst (os_path_splitext (os_path_basename input_file)) @ ''.vdx'')) = Some output_file
             \<and> res_output r = Some (os_path_basename output_file)
             \<and> get_unique_filename (files w)
                 (os_path_join (ARCHIVE_DIR cfg) (os_path_basename input_file)) = Some archive_file
             \<and> res_archive r = Some (os_path_basename archive_file)))
       \<and> (d \<noteq> [] \<and> last d \<noteq> sep \<and> sep \<notin> set t \<longrightarrow>
            suffixed (os_path_join d t) n =
              d @ [sep] @ fst (os_path_splitext t) @ ''_'' @ str_nat n @ snd (os_path_splitext t))"
proof (intro conjI)
  show "d \<noteq> [] \<and> last d \<noteq> sep \<and> sep \<notin> set t \<longrightarrow>
            suffixed (os_path_join d t) n =
              d @ [sep] @ fst (os_path_splitext t) @ ''_'' @ str_nat n @ snd (os_path_splitext t)"
    using suffixed_join by blast
  show "\<not> os_path_exists (files w) filepath \<longrightarrow> get_unique_filename (files w) filepath = Some filepath"
    by (simp add: get_unique_filename_def)
  show "os_path_exists (files w) filepath \<longrightarrow>
            (\<exists>k\<ge>1. get_unique_filename (files w) filepath = Some (suffixed filepath k)
                 \<and> \<not> os_path_exists (files w) (suffixed filepath k)
                 \<and> (\<forall>j. 1 \<le> j \<and> j < k \<longrightarrow> os_path_exists (files w) (suffixed filepath j)))"
    using get_unique_filename_exists [OF assms] by blast
  show "os_path_exists (files w) (os_path_join (OUTPUT_DIR cfg) ''foo.vdx'')
            \<and> \<not> os_path_exists (files w) (os_path_join (OUTPUT_DIR cfg) ''foo_1.vdx'') \<longrightarrow>
          get_unique_filename (files w) (os_path_join (OUTPUT_DIR cfg) ''foo.vdx'')
            = Some (os_path_join (OUTPUT_DIR cfg) ''foo_1.vdx'')"
    using OUTPUT_DIR_shape [of cfg] by (simp add: get_unique_filename_foo)
  show "os_path_exists (files w) (os_path_join (OUTPUT_DIR cfg) ''foo.vdx'')
            \<and> os_path_exists (files w) (os_path_join (OUTPUT_DIR cfg) ''foo_1.vdx'')
            \<and> \<not> os_path_exists (files w) (os_path_join (OUTPUT_DIR cfg) ''foo_2.vdx'') \<longrightarrow>
          get_unique_filename (files w) (os_path_join (OUTPUT_DIR cfg) ''foo.vdx'')
            = Some (os_path_join (OUTPUT_DIR cfg) ''foo_2.vdx'')"
    using OUTPUT_DIR_shape [of cfg] by (simp add: get_unique_filename_foo)
  show "\<forall>r w'. process_file cfg env w input_file vsdx_support vsd_support = Some (r, w')
                 \<and> res_success r \<longrightarrow>
            (\<exists>output_file archive_file.
               get_unique_filename (files w)
                 (os_path_join (OUTPUT_DIR cfg)
                    (fst (os_path_splitext (os_path_basename input_file)) @ ''.vdx'')) = Some output_file
             \<and> res_output r = Some (os_path_basename output_file)
             \<and> get_unique_filename (files w)
                 (os_path_join (ARCHIVE_DIR cfg) (os_path_basename input_file)) = Some archive_file
             \<and> res_archive r = Some (os_path_basename archive_file))"
    using process_file_names by blast
qed

theorem get_unique_filename_smallest_suffix_witness:
  "finite (files w_foo)
   \<and> os_path_exists (files w_foo) ''/app/output/foo.vdx''
   \<and> get_unique_filename (files w_foo) ''/app/output/foo.vdx'' = Some ''/app/output/foo_2.vdx''
   \<and> suffixed ''/app/output/foo.vdx'' 2 = ''/app/output/foo_2.vdx''
   \<and> (\<exists>k\<ge>1. get_unique_filename (files w_foo) ''/app/output/foo.vdx''
                = Some (suffixed ''/app/output/foo.vdx'' k)
            \<and> \<not> os_path_exists (files w_foo) (suffixed ''/app/output/foo.vdx'' k))
   \<and> (\<exists>r w'. process_file cfg_ex env_ex w_foo ''/app/input/foo.vsdx'' True True = Some (r, w')
          \<and> res_success r \<and> res_output r = Some ''foo_2.vdx'' \<and> res_archive r = Some ''foo.vsdx'')"
proof -
  have f: "finite (files w_foo)" by (simp add: w_foo_def)
  have e: "os_path_exists (files w_foo) ''/app/output/foo.vdx''"
    by (simp add: w_foo_def os_path_exists_def)
  have g: "get_unique_filename (files w_foo) ''/app/output/foo.vdx'' = Some ''/app/output/foo_2.vdx''"
    by code_simp
  have s: "suffixed ''/app/output/foo.vdx'' 2 = ''/app/output/foo_2.vdx''"
    by code_simp
  from get_unique_filename_smallest_suffix
         [OF f, of "''/app/output/foo.vdx''" cfg_ex env_ex "''/app/input/foo.vsdx''" True True] e
  have k: "\<exists>k\<ge>1. get_unique_filename (files w_foo) ''/app/output/foo.vdx''
                = Some (suffixed ''/app/output/foo.vdx'' k)
            \<and> \<not> os_path_exists (files w_foo) (suffixed ''/app/output/foo.vdx'' k)"
    by blast
  have "(case process_file cfg_ex env_ex w_foo ''/app/input/foo.vsdx'' True True of
           None \<Rightarrow> False
         | Some (r, w') \<Rightarrow>
             res_success r \<and> res_output r = Some ''foo_2.vdx'' \<and> res_archive r = Some ''foo.vsdx'')"
    by code_simp
  then have p: "\<exists>r w'. process_file cfg_ex env_ex w_foo ''/app/input/foo.vsdx'' True True = Some (r, w')
          \<and> res_success r \<and> res_output r = Some ''foo_2.vdx'' \<and> res_archive r = Some ''foo.vsdx''"
    by (auto split: option.splits)
  from f e g s k p show ?thesis by blast
qed

section \<open>The document of the native backend\<close>

lemma page_elements_vdx_root:
  "page_elements (vdx_root str input_file drawing) =
     map (\<lambda>(idx, page). page_elem str idx page) (enumerate 1 (pages drawing))"
proof -
  have "\<forall>c \<in> set (map (\<lambda>(idx, page). page_elem str idx page) (enumerate 1 (pages drawing))).
          elem_tag c = ''Page''"
    by (auto simp: page_elem_def)
  then show ?thesis
    by (simp add: page_elements_def vdx_root_def findall_def filter_id_conv)
qed

lemma shape_elements_page_elem:
  "shape_elements (page_elem str idx page) =
     map (\<lambda>(shape_id, shape). shape_elem str shape_id shape) (enumerate 1 (page_shapes page))"
proof -
  have "\<forall>c \<in> set (map (\<lambda>(shape_id, shape). shape_elem str shape_id shape) (enumerate 1 (page_shapes page))).
          elem_tag c = ''Shape''"
    by (auto simp: shape_elem_def)
  then show ?thesis
    by (simp add: shape_elements_def page_elem_def findall_def filter_id_conv)
qed

lemma page_elements_nth:
  assumes "i < length (pages drawing)"
  shows "page_elements (vdx_root str input_file drawing) ! i = page_elem str (Suc i) (pages drawing ! i)"
  using assms by (simp add: page_elements_vdx_root nth_enumerate_eq)

lemma shape_elements_nth:
  assumes "j < length (page_shapes page)"
  shows "shape_elements (page_elem str idx page) ! j = shape_elem str (Suc j) (page_shapes page ! j)"
  using assms by (simp add: shape_elements_page_elem nth_enumerate_eq)

lemma document_properties_vdx_root:
  "props_of ''DocumentProperties'' (vdx_root str input_file drawing) =
     [Element ''Title'' [] (Some (os_path_basename input_file)) [],
      Element ''Creator'' [] (Some ''VDXConvert'') []]"
  by (simp add: props_of_def findall_def vdx_root_def text_element_def)

lemma page_elem_facts:
  "get_attr ''ID'' (page_elem str idx page) = Some (str_nat idx)"
  "get_attr ''Name'' (page_elem str idx page) = Some (page_name page)"
  "props_of ''PageProperties'' (page_elem str idx page) =
     [Element ''PageWidth'' [] (Some (str (page_width page))) [],
      Element ''PageHeight'' [] (Some (str (page_height page))) []]"
  by (simp_all add: get_attr_def props_of_def findall_def page_elem_def text_element_def)

lemma shape_elem_facts:
  "get_attr ''ID'' (shape_elem str shape_id shape) = Some (str_nat shape_id)"
  "get_attr ''Name'' (shape_elem str shape_id shape) = Some (shape_display_name shape_id shape)"
  "props_of ''ShapeProperties'' (shape_elem str shape_id shape) = shape_props str shape"
  by (simp_all add: get_attr_def props_of_def findall_def shape_elem_def)

lemma shape_display_name_cases:
  "shape_display_name shape_id shape =
     (if shape_name shape = None \<or> shape_name shape = Some [] then ''Shape_'' @ str_nat shape_id
      else the (shape_name shape))"
  by (simp add: shape_display_name_def split: option.splits)

lemma shape_props_cases:
  "shape_props str shape =
     (if shape_x shape \<noteq> None \<and> shape_y shape \<noteq> None
      then [Element ''PosX'' [] (Some (str (the (shape_x shape)))) [],
            Element ''PosY'' [] (Some (str (the (shape_y shape)))) []]
      else []) @
     (if shape_width shape \<noteq> None \<and> shape_height shape \<noteq> None
      then [Element ''Width'' [] (Some (str (the (shape_width shape)))) [],
            Element ''Height'' [] (Some (str (the (shape_height shape)))) []]
      else [])"
  by (simp add: shape_props_def text_element_def split: option.splits)

lemma convert_vsdx_to_vdx_emits:
  assumes "VSDX_SUPPORT cfg" "VisioFile env = Inr drawing" "tree_write env = None"
  shows "convert_vsdx_to_vdx cfg env w input_file output_file =
           (Inr True, w\<lparr>files := insert output_file (files w),
                        documents := (documents w)(output_file \<mapsto>
                                        vdx_root (py_str env) input_file drawing)\<rparr>)"
  using assms by (simp add: convert_vsdx_to_vdx_def)

text \<open>
  Claim C5. For every document handle that the parsing library returns, when the write
  succeeds the native backend stores at the output path a document with: a
  document-properties block whose title is the base name of the source file and whose
  creator is \<^verbatim>\<open>VDXConvert\<close>; one page element for each source page, in order, with
  identifier \<open>i + 1\<close> for the page at position \<open>i\<close>, the page's name, and its width
  and height as text; in each page one shape element for each source shape, with
  identifier \<open>j + 1\<close>, the shape's name or \<^verbatim>\<open>Shape_\<close> followed by \<open>j + 1\<close> when the
  name is missing or empty, and the position (size) fields exactly when the shape exposes
  both coordinates (both dimensions). The numbers of shape elements per page are the
  numbers of shapes per source page: for 2 pages with 3 and 0 shapes, 2 page elements
  with 3 and 0 shape elements.
\<close>

theorem native_backend_document:
  assumes "VSDX_SUPPORT cfg" "VisioFile env = Inr drawing" "tree_write env = None"
  shows "fst (convert_vsdx_to_vdx cfg env w input_file output_file) = Inr True
       \<and> documents (snd (convert_vsdx_to_vdx cfg env w input_file output_file)) output_file
           = Some (vdx_root (py_str env) input_file drawing)
       \<and> props_of ''DocumentProperties'' (vdx_root (py_str env) input_file drawing)
           = [Element ''Title'' [] (Some (os_path_basename input_file)) [],
              Element ''Creator'' [] (Some ''VDXConvert'') []]
       \<and> length (page_elements (vdx_root (py_str env) input_file drawing)) = length (pages drawing)
       \<and> map (length \<circ> shape_elements) (page_elements (vdx_root (py_str env) input_file drawing))
           = map (length \<circ> page_shapes) (pages drawing)
       \<and> (\<forall>i < length (pages drawing).
            get_attr ''ID'' (page_elements (vdx_root (py_str env) input_file drawing) ! i)
              = Some (str_nat (i + 1))
          \<and> get_attr ''Name'' (page_elements (vdx_root (py_str env) input_file drawing) ! i)
              = Some (page_name (pages drawing ! i))
          \<and> props_of ''PageProperties'' (page_elements (vdx_root (py_str env) input_file drawing) ! i)
              = [Element ''PageWidth'' [] (Some (py_str env (page_width (pages drawing ! i)))) [],
                 Element ''PageHeight'' [] (Some (py_str env (page_height (pages drawing ! i)))) []]
          \<and> (\<forall>j < length (page_shapes (pages drawing ! i)).
                get_attr ''ID''
                  (shape_elements (page_elements (vdx_root (py_str env) input_file drawing) ! i) ! j)
                  = Some (str_nat (j + 1))
              \<and> get_attr ''Name''
                  (shape_elements (page_elements (vdx_root (py_str env) input_file drawing) ! i) ! j)
                  = Some (if shape_name (page_shapes (pages drawing ! i) ! j) = None
                             \<or> shape_name (page_shapes (pages drawing ! i) ! j) = Some []
                          then ''Shape_'' @ str_nat (j + 1)
                          else the (shape_name (page_shapes (pages drawing ! i) ! j)))
              \<and> props_of ''ShapeProperties''
                  (shape_elements (page_elements (vdx_root (py_str env) input_file drawing) ! i) ! j)
                  = (if shape_x (page_shapes (pages drawing ! i) ! j) \<noteq> None
                        \<and> shape_y (page_shapes (pages drawing ! i) ! j) \<noteq> None
                     then [Element ''PosX'' [] (Some (py_str env (the (shape_x (page_shapes (pages drawing ! i) ! j))))) [],
                           Element ''PosY'' [] (Some (py_str env (the (shape_y (page_shapes (pages drawing ! i) ! j))))) []]
                     else []) @
                    (if shape_width (page_shapes (pages drawing ! i) ! j) \<noteq> None
                        \<and> shape_height (page_shapes (pages drawing ! i) ! j) \<noteq> None
                     then [Element ''Width'' [] (Some (py_str env (the (shape_width (page_shapes (pages drawing ! i) ! j))))) [],
                           Element ''Height'' [] (Some (py_str env (the (shape_height (page_shapes (pages drawing ! i) ! j))))) []]
                     else [])))"
proof -
  let ?root = "vdx_root (py_str env) input_file drawing"
  note emit = convert_vsdx_to_vdx_emits [OF assms, of w input_file output_file]
  have a: "fst (convert_vsdx_to_vdx cfg env w input_file output_file) = Inr True"
    by (simp add: emit)
  have b: "documents (snd (convert_vsdx_to_vdx cfg env w input_file output_file)) output_file
             = Some ?root"
    by (simp add: emit)
  have c: "length (page_elements ?root) = length (pages drawing)"
    by (simp add: page_elements_vdx_root)
  have d: "map (length \<circ> shape_elements) (page_elements ?root)
             = map (length \<circ> page_shapes) (pages drawing)"
    by (rule nth_equalityI)
       (simp_all add: page_elements_vdx_root nth_enumerate_eq shape_elements_page_elem)
  have e: "get_attr ''ID'' (page_elements ?root ! i) = Some (str_nat (i + 1))
         \<and> get_attr ''Name'' (page_elements ?root ! i) = Some (page_name (pages drawing ! i))
         \<and> props_of ''PageProperties'' (page_elements ?root ! i)
              = [Element ''PageWidth'' [] (Some (py_str env (page_width (pages drawing ! i)))) [],
                 Element ''PageHeight'' [] (Some (py_str env (page_height (pages drawing ! i)))) []]"
    if "i < length (pages drawing)" for i
    by (simp add: page_elements_nth [OF that] page_elem_facts)
  have f: "get_attr ''ID'' (shape_elements (page_elements ?root ! i) ! j) = Some (str_nat (j + 1))
         \<and> get_attr ''Name'' (shape_elements (page_elements ?root ! i) ! j)
             = Some (shape_display_name (j + 1) (page_shapes (pages drawing ! i) ! j))
         \<and> props_of ''ShapeProperties'' (shape_elements (page_elements ?root ! i) ! j)
             = shape_props (py_str env) (page_shapes (pages drawing ! i) ! j)"
    if "i < length (pages drawing)" "j < length (page_shapes (pages drawing ! i))" for i j
    by (simp add: page_elements_nth [OF that(1)] shape_elements_nth [OF that(2)] shape_elem_facts)
  show ?thesis
    using a b c d e f
    by (simp add: document_properties_vdx_root shape_display_name_cases shape_props_cases)
qed

theorem native_backend_document_witness:
  "VSDX_SUPPORT cfg_ex \<and> VisioFile env_ex = Inr drawing_ex \<and> tree_write env_ex = None
   \<and> fst (convert_vsdx_to_vdx cfg_ex env_ex w_ex ''/app/input/a.vsdx'' ''/app/output/a.vdx'')
        = Inr True
   \<and> length (pages drawing_ex) = 2
   \<and> map (length \<circ> page_shapes) (pages drawing_ex) = [3, 0]
   \<and> length (page_elements (vdx_root str_nat ''/app/input/a.vsdx'' drawing_ex)) = 2
   \<and> map (length \<circ> shape_elements)
         (page_elements (vdx_root str_nat ''/app/input/a.vsdx'' drawing_ex)) = [3, 0]
   \<and> map (get_attr ''Name'')
         (shape_elements (page_elements (vdx_root str_nat ''/app/input/a.vsdx'' drawing_ex) ! 0))
        = [Some ''Box'', Some ''Shape_2'', Some ''Shape_3'']
   \<and> map (\<lambda>e. (elem_tag e, elem_text e))
         (props_of ''DocumentProperties'' (vdx_root str_nat ''/app/input/a.vsdx'' drawing_ex))
        = [(''Title'', Some ''a.vsdx''), (''Creator'', Some ''VDXConvert'')]
   \<and> map (\<lambda>e. (elem_tag e, elem_text e))
         (props_of ''PageProperties''
            (page_elements (vdx_root str_nat ''/app/input/a.vsdx'' drawing_ex) ! 0))
        = [(''PageWidth'', Some ''8''), (''PageHeight'', Some ''11'')]
   \<and> map (\<lambda>e. (elem_tag e, elem_text e))
         (props_of ''ShapeProperties''
            (shape_elements (page_elements (vdx_root str_nat ''/app/input/a.vsdx'' drawing_ex) ! 0)
               ! 0))
        = [(''PosX'', Some ''1''), (''PosY'', Some ''2''), (''Width'', Some ''3''),
           (''Height'', Some ''4'')]"
proof -
  have n: "map (get_attr ''Name'')
         (shape_elements (page_elements (vdx_root str_nat ''/app/input/a.vsdx'' drawing_ex) ! 0))
        = [Some ''Box'', Some ''Shape_2'', Some ''Shape_3'']"
    by code_simp
  have h: "VSDX_SUPPORT cfg_ex" "VisioFile env_ex = Inr drawing_ex" "tree_write env_ex = None"
    by (simp_all add: cfg_ex_def env_ex_def)
  have s: "py_str env_ex = str_nat" by (simp add: env_ex_def)
  have p: "length (pages drawing_ex) = 2" "map (length \<circ> page_shapes) (pages drawing_ex) = [3, 0]"
    by (simp_all add: drawing_ex_def)
  from native_backend_document [OF h, of w_ex "''/app/input/a.vsdx''" "''/app/output/a.vdx''"]
  have "fst (convert_vsdx_to_vdx cfg_ex env_ex w_ex ''/app/input/a.vsdx'' ''/app/output/a.vdx'')
          = Inr True"
    and "length (page_elements (vdx_root str_nat ''/app/input/a.vsdx'' drawing_ex))
          = length (pages drawing_ex)"
    and "map (length \<circ> shape_elements)
           (page_elements (vdx_root str_nat ''/app/input/a.vsdx'' drawing_ex))
          = map (length \<circ> page_shapes) (pages drawing_ex)"
    unfolding s by blast+
  moreover from native_backend_document
                  [OF h, of w_ex "''/app/input/a.vsdx''" "''/app/output/a.vdx''"]
  have "props_of ''DocumentProperties'' (vdx_root str_nat ''/app/input/a.vsdx'' drawing_ex)
          = [Element ''Title'' [] (Some (os_path_basename ''/app/input/a.vsdx'')) [],
             Element ''Creator'' [] (Some ''VDXConvert'') []]"
    unfolding s by blast
  then have "map (\<lambda>e. (elem_tag e, elem_text e))
         (props_of ''DocumentProperties'' (vdx_root str_nat ''/app/input/a.vsdx'' drawing_ex))
        = [(''Title'', Some ''a.vsdx''), (''Creator'', Some ''VDXConvert'')]"
    by (simp add: path_defs)
  moreover have "map (\<lambda>e. (elem_tag e, elem_text e))
         (props_of ''PageProperties''
            (page_elements (vdx_root str_nat ''/app/input/a.vsdx'' drawing_ex) ! 0))
        = [(''PageWidth'', Some ''8''), (''PageHeight'', Some ''11'')]"
    by code_simp
  moreover have "map (\<lambda>e. (elem_tag e, elem_text e))
         (props_of ''ShapeProperties''
            (shape_elements (page_elements (vdx_root str_nat ''/app/input/a.vsdx'' drawing_ex) ! 0)
               ! 0))
        = [(''PosX'', Some ''1''), (''PosY'', Some ''2''), (''Width'', Some ''3''),
           (''Height'', Some ''4'')]"
    by code_simp
  ultimately show ?thesis using h p n by simp
qed

section \<open>Every file gets its result\<close>

lemma logging_simps [simp]:
  "files (logging lv m w) = files w"
  "documents (logging lv m w) = documents w"
  "launched (logging lv m w) = launched w"
  "log (logging lv m w) = log w @ [Log lv m]"
  by (simp_all add: logging_def)

lemma logging_traceback_simps [simp]:
  "files (logging_traceback e w) = files w"
  "documents (logging_traceback e w) = documents w"
  "launched (logging_traceback e w) = launched w"
  "log (logging_traceback e w) = log w @ [Traceback e]"
  by (simp_all add: logging_traceback_def)



















section \<open>No backend for the extension\<close>

lemma convert_by_extension_unavailable:
  assumes "(ext \<in> {''.vsdx'', ''.vsdm''} \<and> \<not> vsdx_support)
           \<or> (ext \<in> {''.vsd'', ''.vdw''} \<and> \<not> vsd_support)"
  shows "convert_by_extension cfg env w input_file output_file ext vsdx_support vsd_support =
           (Inr False,
            logging ERROR
              (''Cannot process '' @ ext @ '' files: '' @
               (if ext \<in> {''.vsdx'', ''.vsdm''} then ''vsdx library not available''
                else ''LibreOffice/unoconv not available'')) w)"
  using assms by (auto simp: convert_by_extension_def)

text \<open>
  Claim C3, as the code has it. For an input whose extension family has no backend (the
  native family with \<^verbatim>\<open>vsdx_support\<close> false, the external family with
  \<^verbatim>\<open>vsd_support\<close> false), \<^verbatim>\<open>process_file\<close> makes no conversion attempt: no process
  is launched and no path or document changes. It returns a failure record. The error
  description of that record is the fixed text \<^verbatim>\<open>Conversion process failed\<close>; that the
  backend is not available is said in the logged error line only.
\<close>

theorem no_backend_no_attempt:
  assumes "finite (files w)"
    and "ext = lower (snd (os_path_splitext (os_path_basename input_file)))"
    and "(ext \<in> {''.vsdx'', ''.vsdm''} \<and> \<not> vsdx_support)
         \<or> (ext \<in> {''.vsd'', ''.vdw''} \<and> \<not> vsd_support)"
  shows "\<exists>w'. process_file cfg env w input_file vsdx_support vsd_support =
                 Some (\<lparr>res_filename = os_path_basename input_file, res_output = None,
                        res_archive = None, res_success = False,
                        res_error = Some ''Conversion process failed''\<rparr>, w')
            \<and> files w' = files w \<and> documents w' = documents w \<and> launched w' = launched w
            \<and> log w' = log w @
                 [Log INFO (''Processing: '' @ os_path_basename input_file),
                  Log ERROR (''Cannot process '' @ ext @ '' files: '' @
                             (if ext \<in> {''.vsdx'', ''.vsdm''} then ''vsdx library not available''
                              else ''LibreOffice/unoconv not available'')),
                  Log ERROR (cross_mark @ '' Conversion failed: '' @ os_path_basename input_file)]"
proof -
  define fname where "fname = os_path_basename input_file"
  define w0 where "w0 = logging INFO (''Processing: '' @ fname) w"
  obtain output_file where o: "get_unique_filename (files w)
      (os_path_join (OUTPUT_DIR cfg) (fst (os_path_splitext fname) @ ''.vdx'')) = Some output_file"
    using get_unique_filename_total [OF assms(1)] by blast
  obtain archive_file where a: "get_unique_filename (files w)
      (os_path_join (ARCHIVE_DIR cfg) fname) = Some archive_file"
    using get_unique_filename_total [OF assms(1)] by blast
  define msg where "msg = ''Cannot process '' @ ext @ '' files: '' @
                             (if ext \<in> {''.vsdx'', ''.vsdm''} then ''vsdx library not available''
                              else ''LibreOffice/unoconv not available'')"
  have c: "convert_by_extension cfg env w0 input_file output_file
             (lower (snd (os_path_splitext fname))) vsdx_support vsd_support
           = (Inr False, logging ERROR msg w0)"
    unfolding msg_def assms(2) [unfolded fname_def [symmetric], symmetric]
    using assms(3) by (rule convert_by_extension_unavailable)
  have t: "process_file_try cfg env w0 input_file output_file archive_file vsdx_support vsd_support
           = (Inr \<lparr>res_filename = fname, res_output = None, res_archive = None,
                   res_success = False, res_error = Some ''Conversion process failed''\<rparr>,
              logging ERROR (cross_mark @ '' Conversion failed: '' @ fname) (logging ERROR msg w0))"
    unfolding process_file_try_def Let_def fname_def [symmetric] c by simp
  have p: "process_file cfg env w input_file vsdx_support vsd_support
           = Some (\<lparr>res_filename = fname, res_output = None, res_archive = None,
                   res_success = False, res_error = Some ''Conversion process failed''\<rparr>,
              logging ERROR (cross_mark @ '' Conversion failed: '' @ fname) (logging ERROR msg w0))"
    unfolding process_file_def Let_def fname_def [symmetric] o a option.case w0_def [symmetric] t
    by simp
  show ?thesis
    unfolding p fname_def [symmetric] msg_def [symmetric]
    by (simp add: w0_def)
qed

theorem no_backend_no_attempt_witness:
  "finite (files w_ex)
   \<and> ''.vsd'' = lower (snd (os_path_splitext (os_path_basename ''/app/input/b.vsd'')))
   \<and> ''.vsd'' \<in> {''.vsd'', ''.vdw''}
   \<and> (\<exists>w'. process_file cfg_ex env_ex w_ex ''/app/input/b.vsd'' True False =
                 Some (\<lparr>res_filename = ''b.vsd'', res_output = None,
                        res_archive = None, res_success = False,
                        res_error = Some ''Conversion process failed''\<rparr>, w')
            \<and> files w' = files w_ex \<and> launched w' = []
            \<and> log w' =
                 [Log INFO ''Processing: b.vsd'',
                  Log ERROR ''Cannot process .vsd files: LibreOffice/unoconv not available'',
                  Log ERROR (cross_mark @ '' Conversion failed: b.vsd'')])"
proof -
  have f: "finite (files w_ex)" by (simp add: w_ex_def)
  have e: "''.vsd'' = lower (snd (os_path_splitext (os_path_basename ''/app/input/b.vsd'')))"
    by (simp add: path_defs)
  have b: "os_path_basename ''/app/input/b.vsd'' = ''b.vsd''"
    by (simp add: path_defs)
  have d: "(''.vsd'' \<in> {''.vsdx'', ''.vsdm''} \<and> \<not> True)
         \<or> (''.vsd'' \<in> {''.vsd'', ''.vdw''} \<and> \<not> False)" by simp
  from no_backend_no_attempt [OF f e d, of cfg_ex env_ex]
  obtain w' where
    p: "process_file cfg_ex env_ex w_ex ''/app/input/b.vsd'' True False =
          Some (\<lparr>res_filename = ''b.vsd'', res_output = None,
                 res_archive = None, res_success = False,
                 res_error = Some ''Conversion process failed''\<rparr>, w')"
    and w: "files w' = files w_ex" "launched w' = launched w_ex"
      "log w' = log w_ex @
         [Log INFO ''Processing: b.vsd'',
          Log ERROR ''Cannot process .vsd files: LibreOffice/unoconv not available'',
          Log ERROR (cross_mark @ '' Conversion failed: b.vsd'')]"
    unfolding b by auto
  have l: "launched w_ex = []" "log w_ex = []" by (simp_all add: w_ex_def)
  show ?thesis
  proof (intro conjI exI)
    show "finite (files w_ex)" by (rule f)
    show "''.vsd'' = lower (snd (os_path_splitext (os_path_basename ''/app/input/b.vsd'')))"
      by (rule e)
    show "''.vsd'' \<in> {''.vsd'', ''.vdw''}" by simp
    show "process_file cfg_ex env_ex w_ex ''/app/input/b.vsd'' True False =
          Some (\<lparr>res_filename = ''b.vsd'', res_output = None,
                 res_archive = None, res_success = False,
                 res_error = Some ''Conversion process failed''\<rparr>, w')" by (rule p)
    show "files w' = files w_ex" by (rule w(1))
    show "launched w' = []" using w(2) l by simp
    show "log w' = [Log INFO ''Processing: b.vsd'',
          Log ERROR ''Cannot process .vsd files: LibreOffice/unoconv not available'',
          Log ERROR (cross_mark @ '' Conversion failed: b.vsd'')]" using w(3) l by simp
  qed
qed

text \<open>
  The error description returned for \<^verbatim>\<open>b.vsd\<close> with no external converter says nothing
  about a backend or its availability.
\<close>

theorem no_backend_error_text_counterexample:
  "map_option (res_error \<circ> fst) (process_file cfg_ex env_ex w_ex ''/app/input/b.vsd'' True False)
     = Some (Some ''Conversion process failed'')
   \<and> \<not> sublist ''available'' ''Conversion process failed''
   \<and> \<not> sublist ''LibreOffice'' ''Conversion process failed''
   \<and> \<not> sublist ''backend'' ''Conversion process failed''"
  by code_simp

section \<open>The guard on the parsing library\<close>

lemma convert_vsdx_to_vdx_no_raise:
  assumes "VSDX_SUPPORT cfg"
  shows "\<exists>b w'. convert_vsdx_to_vdx cfg env w input_file output_file = (Inr b, w')"
  using assms by (auto simp: convert_vsdx_to_vdx_def split: sum.splits option.splits)

lemma convert_by_extension_native_no_raise:
  assumes "vsdx_support \<longrightarrow> VSDX_SUPPORT cfg" "ext \<in> {''.vsdx'', ''.vsdm''}"
  shows "\<exists>b w'. convert_by_extension cfg env w input_file output_file ext vsdx_support vsd_support
                  = (Inr b, w')"
proof (cases vsdx_support)
  case True
  with assms(1) have "VSDX_SUPPORT cfg" by simp
  from convert_vsdx_to_vdx_no_raise [OF this, of env w input_file output_file]
  show ?thesis using assms(2) True by (auto simp: convert_by_extension_def)
next
  case False
  then show ?thesis using assms(2) by (auto simp: convert_by_extension_def)
qed

text \<open>
  Claim C9. \<^verbatim>\<open>check_dependencies\<close> returns the module's \<^verbatim>\<open>VSDX_SUPPORT\<close> as its first
  flag. When the flag passed to \<^verbatim>\<open>process_file\<close> is true only if the library was
  imported, the conversion step of a \<^verbatim>\<open>.vsdx\<close> or \<^verbatim>\<open>.vsdm\<close> input raises nothing: the
  \<^verbatim>\<open>raise ImportError\<close> at the top of \<^verbatim>\<open>convert_vsdx_to_vdx\<close> is not reached. The only
  exception the body of the \<^verbatim>\<open>try\<close> of \<^verbatim>\<open>process_file\<close> can end with is the one of
  the move into the archive, and the handler turns that into a record.
\<close>

theorem import_error_unreachable:
  assumes "vsdx_support \<longrightarrow> VSDX_SUPPORT cfg"
    and "lower (snd (os_path_splitext (os_path_basename input_file))) \<in> {''.vsdx'', ''.vsdm''}"
  shows "(\<exists>b w'. convert_by_extension cfg env w input_file output_file
                    (lower (snd (os_path_splitext (os_path_basename input_file))))
                    vsdx_support vsd_support = (Inr b, w'))
       \<and> (\<forall>e w'. process_file_try cfg env w input_file output_file archive_file
                     vsdx_support vsd_support = (Inl e, w') \<longrightarrow> move env = Some e)
       \<and> fst (fst (check_dependencies cfg soffice_probe has_unoconv w0)) = VSDX_SUPPORT cfg"
proof (intro conjI allI impI)
  from convert_by_extension_native_no_raise [OF assms]
  show c: "\<exists>b w'. convert_by_extension cfg env w input_file output_file
                    (lower (snd (os_path_splitext (os_path_basename input_file))))
                    vsdx_support vsd_support = (Inr b, w')" .
  show "fst (fst (check_dependencies cfg soffice_probe has_unoconv w0)) = VSDX_SUPPORT cfg"
    by (simp add: check_dependencies_def Let_def)
  fix e w'
  assume t: "process_file_try cfg env w input_file output_file archive_file
               vsdx_support vsd_support = (Inl e, w')"
  from c obtain b w1 where "convert_by_extension cfg env w input_file output_file
                    (lower (snd (os_path_splitext (os_path_basename input_file))))
                    vsdx_support vsd_support = (Inr b, w1)" by blast
  with t show "move env = Some e"
    by (auto simp: process_file_try_def Let_def split: bool.splits option.splits)
qed

theorem import_error_unreachable_witness:
  "VSDX_SUPPORT cfg_ex
   \<and> lower (snd (os_path_splitext (os_path_basename ''/app/input/a.VSDX''))) = ''.vsdx''
   \<and> fst (convert_by_extension cfg_ex env_ex w_ex ''/app/input/a.VSDX'' ''/app/output/a.vdx''
             ''.vsdx'' True False) = Inr True
   \<and> fst (fst (check_dependencies cfg_ex NotFound False w_ex)) = VSDX_SUPPORT cfg_ex"
proof -
  have v: "VSDX_SUPPORT cfg_ex" by (simp add: cfg_ex_def)
  have x: "lower (snd (os_path_splitext (os_path_basename ''/app/input/a.VSDX''))) = ''.vsdx''"
    by (simp add: path_defs)
  have h1: "True \<longrightarrow> VSDX_SUPPORT cfg_ex" using v by simp
  have h2: "lower (snd (os_path_splitext (os_path_basename ''/app/input/a.VSDX'')))
              \<in> {''.vsdx'', ''.vsdm''}" by (simp add: x)
  have ev: "fst (convert_by_extension cfg_ex env_ex w_ex ''/app/input/a.VSDX'' ''/app/output/a.vdx''
             ''.vsdx'' True False) = Inr True"
    by (simp add: convert_by_extension_def convert_vsdx_to_vdx_def cfg_ex_def env_ex_def)
  from import_error_unreachable [OF h1 h2, of env_ex w_ex "''/app/output/a.vdx''" False
         "''/app/archive/a.VSDX''" NotFound False w_ex]
  have "fst (fst (check_dependencies cfg_ex NotFound False w_ex)) = VSDX_SUPPORT cfg_ex" by blast
  with v x ev show ?thesis by blast
qed

section \<open>The scratch directory and the output file\<close>

lemma temp_dir_shape: "temp_dir cfg \<noteq> [] \<and> last (temp_dir cfg) \<noteq> sep"
  by (simp add: temp_dir_def os_path_join_def startswith_sep_def sep_def)

lemma temp_vdx_plain:
  "os_path_join (temp_dir cfg) (fst (os_path_splitext (os_path_basename input_file)) @ ''.vdx'')
     = temp_dir cfg @ [sep] @ fst (os_path_splitext (os_path_basename input_file)) @ ''.vdx''"
proof -
  have "sep \<notin> set (fst (os_path_splitext (os_path_basename input_file)))"
    using set_fst_splitext sep_notin_basename by blast
  then have "sep \<notin> set (fst (os_path_splitext (os_path_basename input_file)) @ ''.vdx'')"
    by (simp add: sep_def)
  then have "\<not> startswith_sep (fst (os_path_splitext (os_path_basename input_file)) @ ''.vdx'')"
    by (rule not_startswith_sep)
  with temp_dir_shape [of cfg] show ?thesis by (simp add: os_path_join_plain)
qed


lemma temp_vdx_neq_temp_dir:
  "os_path_join (temp_dir cfg) (fst (os_path_splitext (os_path_basename input_file)) @ ''.vdx'')
     \<noteq> temp_dir cfg"
  by (simp add: temp_vdx_plain)

text \<open>What each block does to the set of paths and to the record of launches.\<close>

lemmas attempt_defs = try_unoconv_def try_soffice_def subprocess_run_check_def collect_output_def
  unoconv_except_def soffice_except_def os_path_exists_def Let_def

lemma keeps_try_unoconv:
  assumes "try_unoconv env w input_file output_file temp_vdx = (r, w')" "x \<in> files w" "x \<noteq> temp_vdx"
  shows "x \<in> files w'"
  using assms
  by (auto simp: attempt_defs split: run_outcome.splits option.splits if_splits)

lemma keeps_try_soffice:
  assumes "try_soffice env w input_file output_file temp_vdx = (r, w')" "x \<in> files w" "x \<noteq> temp_vdx"
  shows "x \<in> files w'"
  using assms
  by (auto simp: attempt_defs split: run_outcome.splits option.splits if_splits)



lemma convert_vsd_to_vdx_try_keeps_temp_dir:
  assumes "convert_vsd_to_vdx_try cfg env w input_file output_file = (r, w')" "makedirs env = None"
  shows "temp_dir cfg \<in> files w'"
proof -
  let ?tv = "os_path_join (temp_dir cfg)
               (fst (os_path_splitext (os_path_basename input_file)) @ ''.vdx'')"
  let ?w1 = "w\<lparr>files := insert (temp_dir cfg) (files w)\<rparr>"
  have n: "temp_dir cfg \<noteq> ?tv" using temp_vdx_neq_temp_dir [of cfg input_file] by simp
  obtain r2 w2 where u: "try_unoconv env ?w1 input_file output_file ?tv = (r2, w2)"
    by (cases "try_unoconv env ?w1 input_file output_file ?tv")
  have k2: "temp_dir cfg \<in> files w2"
    using keeps_try_unoconv [OF u _ n] by simp
  show ?thesis
  proof (cases "r2 = Inr False")
    case False
    then have "w' = w2" using assms u
      by (auto simp: convert_vsd_to_vdx_try_def Let_def split: sum.splits bool.splits)
    with k2 show ?thesis by simp
  next
    case True
    then have "try_soffice env w2 input_file output_file ?tv = (r, w')" using assms u
      by (simp add: convert_vsd_to_vdx_try_def Let_def)
    from keeps_try_soffice [OF this k2 n] show ?thesis .
  qed
qed



lemma cleanup_removes_temp_dir:
  "rmtree env = None \<Longrightarrow> temp_dir cfg \<notin> files (cleanup cfg env w)"
  by (simp add: cleanup_def os_path_exists_def inside_def)

lemma cleanup_removes_inside:
  "rmtree env = None \<Longrightarrow> temp_dir cfg \<in> files w \<Longrightarrow> inside (temp_dir cfg) p
     \<Longrightarrow> p \<notin> files (cleanup cfg env w)"
  by (simp add: cleanup_def os_path_exists_def)

lemma cleanup_fails:
  "rmtree env = Some e \<Longrightarrow> cleanup cfg env w = w"
  by (simp add: cleanup_def)


lemma convert_vsd_to_vdx_makedirs_fails:
  assumes "makedirs env = Some e"
  shows "launched (snd (convert_vsd_to_vdx cfg env w input_file output_file)) = launched w"
  using assms
  by (simp add: convert_vsd_to_vdx_def convert_vsd_to_vdx_try_def cleanup_def split: option.splits)








text \<open>
  Claim C8, as the code has it. The scratch directory is created before any converter
  is launched: when its creation fails, nothing is launched. On every way out of
  \<^verbatim>\<open>convert_vsd_to_vdx\<close> the \<^verbatim>\<open>finally\<close> clause removes the directory if it exists;
  when that removal succeeds the directory does not exist afterwards, nor does any path
  below it once it had been created. A failure of the removal is dropped
  (\<^verbatim>\<open>except: pass\<close>), and then the directory is still there after the function returns.
\<close>

theorem scratch_directory_cleanup:
  "(makedirs env \<noteq> None \<longrightarrow>
      launched (snd (convert_vsd_to_vdx cfg env w input_file output_file)) = launched w)
   \<and> (rmtree env = None \<longrightarrow>
        \<not> os_path_exists (files (snd (convert_vsd_to_vdx cfg env w input_file output_file)))
             (temp_dir cfg))
   \<and> (rmtree env = None \<and> makedirs env = None \<longrightarrow>
        (\<forall>p. inside (temp_dir cfg) p \<longrightarrow>
           \<not> os_path_exists (files (snd (convert_vsd_to_vdx cfg env w input_file output_file))) p))
   \<and> (rmtree env \<noteq> None \<and> makedirs env = None \<longrightarrow>
        os_path_exists (files (snd (convert_vsd_to_vdx cfg env w input_file output_file)))
          (temp_dir cfg))"
proof -
  obtain r1 w1 where t: "convert_vsd_to_vdx_try cfg env w input_file output_file = (r1, w1)"
    by (cases "convert_vsd_to_vdx_try cfg env w input_file output_file")
  obtain w2 where c: "snd (convert_vsd_to_vdx cfg env w input_file output_file) = cleanup cfg env w2"
    and k: "files w2 = files w1"
    by (cases r1) (auto simp: convert_vsd_to_vdx_def t)
  have kt: "temp_dir cfg \<in> files w2" if "makedirs env = None"
    using convert_vsd_to_vdx_try_keeps_temp_dir [OF t that] k by simp
  have 1: "makedirs env \<noteq> None \<longrightarrow>
      launched (snd (convert_vsd_to_vdx cfg env w input_file output_file)) = launched w"
    using convert_vsd_to_vdx_makedirs_fails by blast
  have 2: "rmtree env = None \<longrightarrow>
        \<not> os_path_exists (files (snd (convert_vsd_to_vdx cfg env w input_file output_file)))
             (temp_dir cfg)"
    unfolding c os_path_exists_def using cleanup_removes_temp_dir by blast
  have 3: "rmtree env = None \<and> makedirs env = None \<longrightarrow>
        (\<forall>p. inside (temp_dir cfg) p \<longrightarrow>
           \<not> os_path_exists (files (snd (convert_vsd_to_vdx cfg env w input_file output_file))) p)"
    unfolding c os_path_exists_def using cleanup_removes_inside kt by blast
  have 4: "rmtree env \<noteq> None \<and> makedirs env = None \<longrightarrow>
        os_path_exists (files (snd (convert_vsd_to_vdx cfg env w input_file output_file)))
          (temp_dir cfg)"
    unfolding c os_path_exists_def using cleanup_fails kt by fastforce
  from 1 2 3 4 show ?thesis by blast
qed

theorem scratch_directory_cleanup_witness:
  "makedirs env_makedirs_fails \<noteq> None
   \<and> launched (snd (convert_vsd_to_vdx cfg_ex env_makedirs_fails w_ex
                      ''/app/input/b.vsd'' ''/app/output/b.vdx'')) = launched w_ex
   \<and> rmtree env_ex = None \<and> makedirs env_ex = None
   \<and> inside (temp_dir cfg_ex) ''/app/logs/temp/b.vdx''
   \<and> \<not> os_path_exists
          (files (snd (convert_vsd_to_vdx cfg_ex env_ex w_ex ''/app/input/b.vsd'' ''/app/output/b.vdx'')))
          (temp_dir cfg_ex)
   \<and> \<not> os_path_exists
          (files (snd (convert_vsd_to_vdx cfg_ex env_ex w_ex ''/app/input/b.vsd'' ''/app/output/b.vdx'')))
          ''/app/logs/temp/b.vdx''
   \<and> rmtree env_rmtree_fails \<noteq> None \<and> makedirs env_rmtree_fails = None
   \<and> os_path_exists
        (files (snd (convert_vsd_to_vdx cfg_ex env_rmtree_fails w_ex
                       ''/app/input/b.vsd'' ''/app/output/b.vdx'')))
        (temp_dir cfg_ex)"
proof -
  have h: "makedirs env_makedirs_fails \<noteq> None" "rmtree env_ex = None" "makedirs env_ex = None"
    "rmtree env_rmtree_fails \<noteq> None" "makedirs env_rmtree_fails = None"
    by (simp_all add: env_makedirs_fails_def env_rmtree_fails_def env_ex_def)
  have i: "inside (temp_dir cfg_ex) ''/app/logs/temp/b.vdx''" by code_simp
  note t1 = scratch_directory_cleanup
              [of env_makedirs_fails cfg_ex w_ex "''/app/input/b.vsd''" "''/app/output/b.vdx''"]
  note t2 = scratch_directory_cleanup
              [of env_ex cfg_ex w_ex "''/app/input/b.vsd''" "''/app/output/b.vdx''"]
  note t3 = scratch_directory_cleanup
              [of env_rmtree_fails cfg_ex w_ex "''/app/input/b.vsd''" "''/app/output/b.vdx''"]
  from t1 h(1) have a: "launched (snd (convert_vsd_to_vdx cfg_ex env_makedirs_fails w_ex
                      ''/app/input/b.vsd'' ''/app/output/b.vdx'')) = launched w_ex" by blast
  from t2 h(2,3) i have b: "\<not> os_path_exists
          (files (snd (convert_vsd_to_vdx cfg_ex env_ex w_ex ''/app/input/b.vsd'' ''/app/output/b.vdx'')))
          (temp_dir cfg_ex)"
    and c: "\<not> os_path_exists
          (files (snd (convert_vsd_to_vdx cfg_ex env_ex w_ex ''/app/input/b.vsd'' ''/app/output/b.vdx'')))
          ''/app/logs/temp/b.vdx''" by blast+
  from t3 h(4,5) have d: "os_path_exists
        (files (snd (convert_vsd_to_vdx cfg_ex env_rmtree_fails w_ex
                       ''/app/input/b.vsd'' ''/app/output/b.vdx'')))
        (temp_dir cfg_ex)" by blast
  from h i a b c d show ?thesis by blast
qed

text \<open>
  With \<^verbatim>\<open>rmtree\<close> failing, a conversion that returns true leaves its scratch directory
  behind.
\<close>

theorem scratch_directory_remains_counterexample:
  "fst (convert_vsd_to_vdx cfg_ex env_rmtree_fails w_ex ''/app/input/b.vsd'' ''/app/output/b.vdx'')
     = True
   \<and> os_path_exists
        (files (snd (convert_vsd_to_vdx cfg_ex env_rmtree_fails w_ex
                       ''/app/input/b.vsd'' ''/app/output/b.vdx'')))
        (temp_dir cfg_ex)"
  by code_simp

section \<open>The order of the external backends\<close>

lemmas outcome_defs = deposited_def attempt_succeeds_def attempt_exception_def next_backend_tried_def

lemma try_unoconv_fst:
  "fst (try_unoconv env w input_file output_file temp_vdx) =
     (if attempt_succeeds (run_unoconv env) (copy2_unoconv env) (remove_unoconv env)
           (os_path_exists (files w) temp_vdx) then Inr True
      else if next_backend_tried (run_unoconv env) (copy2_unoconv env) (remove_unoconv env)
           (os_path_exists (files w) temp_vdx) then Inr False
      else Inl (the (attempt_exception (run_unoconv env) (copy2_unoconv env) (remove_unoconv env)
                       (os_path_exists (files w) temp_vdx))))"
  by (auto simp: attempt_defs outcome_defs logging_def split: run_outcome.splits option.splits)

lemma try_unoconv_launched:
  "launched (snd (try_unoconv env w input_file output_file temp_vdx)) = launched w @ [Unoconv]"
  by (auto simp: attempt_defs logging_def split: run_outcome.splits option.splits)

lemma try_unoconv_present:
  assumes "fst (try_unoconv env w input_file output_file temp_vdx) = Inr False"
  shows "os_path_exists (files (snd (try_unoconv env w input_file output_file temp_vdx))) temp_vdx
         = (os_path_exists (files w) temp_vdx \<or> deposited (run_unoconv env))"
  using assms
  by (auto simp: attempt_defs outcome_defs logging_def split: run_outcome.splits option.splits if_splits)

lemma try_soffice_fst:
  "(fst (try_soffice env w input_file output_file temp_vdx) = Inr True)
     = attempt_succeeds (run_soffice env) (copy2_soffice env) (remove_soffice env)
         (os_path_exists (files w) temp_vdx)"
  by (auto simp: attempt_defs outcome_defs logging_def split: run_outcome.splits option.splits)

lemma try_soffice_launched:
  "launched (snd (try_soffice env w input_file output_file temp_vdx)) = launched w @ [LibreOffice]"
  by (auto simp: attempt_defs logging_def split: run_outcome.splits option.splits)

lemma launched_cleanup [simp]: "launched (cleanup cfg env w) = launched w"
  by (simp add: cleanup_def split: option.splits)

lemma fst_convert_vsd_to_vdx:
  "fst (convert_vsd_to_vdx cfg env w input_file output_file)
     = (fst (convert_vsd_to_vdx_try cfg env w input_file output_file) = Inr True)"
  by (auto simp: convert_vsd_to_vdx_def split: prod.splits sum.splits)

lemma launched_convert_vsd_to_vdx:
  "launched (snd (convert_vsd_to_vdx cfg env w input_file output_file))
     = launched (snd (convert_vsd_to_vdx_try cfg env w input_file output_file))"
  by (auto simp: convert_vsd_to_vdx_def split: prod.splits sum.splits)

lemma convert_vsd_to_vdx_try_unfold:
  assumes "makedirs env = None"
  shows "convert_vsd_to_vdx_try cfg env w input_file output_file =
           (if fst (try_unoconv env (w\<lparr>files := insert (temp_dir cfg) (files w)\<rparr>)
                      input_file output_file (temp_vdx_of cfg input_file)) = Inr False
            then try_soffice env
                   (snd (try_unoconv env (w\<lparr>files := insert (temp_dir cfg) (files w)\<rparr>)
                           input_file output_file (temp_vdx_of cfg input_file)))
                   input_file output_file (temp_vdx_of cfg input_file)
            else try_unoconv env (w\<lparr>files := insert (temp_dir cfg) (files w)\<rparr>)
                   input_file output_file (temp_vdx_of cfg input_file))"
  unfolding convert_vsd_to_vdx_try_def assms option.case Let_def temp_vdx_of_def [symmetric]
  by (cases "try_unoconv env (w\<lparr>files := insert (temp_dir cfg) (files w)\<rparr>)
                   input_file output_file (temp_vdx_of cfg input_file)")
     (auto split: sum.splits bool.splits)

text \<open>
  Claim C2, as the code has it. Once the scratch directory is created, \<^verbatim>\<open>unoconv\<close> is
  launched first. LibreOffice is launched after it if and only if the attempt with
  \<^verbatim>\<open>unoconv\<close> ended in a \<^verbatim>\<open>SubprocessError\<close> (which \<^verbatim>\<open>check=True\<close> raises for every
  exit status other than 0) or a \<^verbatim>\<open>FileNotFoundError\<close>, or ended with status 0 and no
  \<^verbatim>\<open>.vdx\<close> of the input's base name in the scratch directory. The conversion returns
  true exactly when an attempted backend exits with status 0, the \<^verbatim>\<open>.vdx\<close> is in the
  scratch directory afterwards, and the copy to the destination and the removal of the
  scratch copy succeed. So status 0 without the file is a failure of that backend, and so
  is any other status, whatever the process has written.
\<close>

theorem fallback_chain:
  assumes "makedirs env = None"
  shows "launched (snd (convert_vsd_to_vdx cfg env w input_file output_file)) =
           launched w @
           (if next_backend_tried (run_unoconv env) (copy2_unoconv env) (remove_unoconv env)
                 (os_path_exists (files w) (temp_vdx_of cfg input_file))
            then [Unoconv, LibreOffice] else [Unoconv])
       \<and> fst (convert_vsd_to_vdx cfg env w input_file output_file) =
           (attempt_succeeds (run_unoconv env) (copy2_unoconv env) (remove_unoconv env)
              (os_path_exists (files w) (temp_vdx_of cfg input_file))
            \<or> next_backend_tried (run_unoconv env) (copy2_unoconv env) (remove_unoconv env)
                 (os_path_exists (files w) (temp_vdx_of cfg input_file))
              \<and> attempt_succeeds (run_soffice env) (copy2_soffice env) (remove_soffice env)
                   (os_path_exists (files w) (temp_vdx_of cfg input_file)
                    \<or> deposited (run_unoconv env)))"
proof -
  define tv where "tv = temp_vdx_of cfg input_file"
  define w1 where "w1 = w\<lparr>files := insert (temp_dir cfg) (files w)\<rparr>"
  define U where "U = try_unoconv env w1 input_file output_file tv"
  define S where "S = try_soffice env (snd U) input_file output_file tv"
  define ok1 where "ok1 = attempt_succeeds (run_unoconv env) (copy2_unoconv env) (remove_unoconv env)
              (os_path_exists (files w) tv)"
  define nx where "nx = next_backend_tried (run_unoconv env) (copy2_unoconv env) (remove_unoconv env)
                 (os_path_exists (files w) tv)"
  define ok2 where "ok2 = attempt_succeeds (run_soffice env) (copy2_soffice env) (remove_soffice env)
                   (os_path_exists (files w) tv \<or> deposited (run_unoconv env))"
  have p1: "os_path_exists (files w1) tv = os_path_exists (files w) tv"
    using temp_vdx_neq_temp_dir [of cfg input_file]
    by (auto simp: w1_def tv_def temp_vdx_of_def os_path_exists_def)
  have T: "convert_vsd_to_vdx_try cfg env w input_file output_file
             = (if fst U = Inr False then S else U)"
    unfolding U_def S_def w1_def tv_def by (rule convert_vsd_to_vdx_try_unfold [OF assms])
  have fU: "fst U = (if ok1 then Inr True else if nx then Inr False
                     else Inl (the (attempt_exception (run_unoconv env) (copy2_unoconv env)
                                      (remove_unoconv env) (os_path_exists (files w) tv))))"
    unfolding U_def ok1_def nx_def by (simp add: try_unoconv_fst p1)
  have lU: "launched (snd U) = launched w @ [Unoconv]"
    unfolding U_def by (simp add: try_unoconv_launched w1_def)
  have lS: "launched (snd S) = launched w @ [Unoconv, LibreOffice]"
    unfolding S_def by (simp add: try_soffice_launched lU)
  have ex: "ok1 \<Longrightarrow> \<not> nx"
    unfolding ok1_def nx_def by (auto simp: outcome_defs split: run_outcome.splits option.splits)
  have fS: "(fst S = Inr True) = ok2" if "fst U = Inr False"
    unfolding S_def ok2_def try_soffice_fst
    using try_unoconv_present [of env w1 input_file output_file tv] that
    by (simp add: U_def p1)
  have F: "(fst U = Inr False) = nx"
    using ex by (auto simp: fU)
  have a: "launched (snd (convert_vsd_to_vdx cfg env w input_file output_file)) =
           launched w @ (if nx then [Unoconv, LibreOffice] else [Unoconv])"
    by (simp add: launched_convert_vsd_to_vdx T F lS lU)
  have b: "fst (convert_vsd_to_vdx cfg env w input_file output_file) = (ok1 \<or> nx \<and> ok2)"
  proof (cases nx)
    case True
    with F have u: "fst U = Inr False" by simp
    from True ex have "\<not> ok1" by blast
    with True show ?thesis by (simp add: fst_convert_vsd_to_vdx T u fS [OF u])
  next
    case False
    with F have "fst U \<noteq> Inr False" by simp
    with False show ?thesis by (auto simp: fst_convert_vsd_to_vdx T fU)
  qed
  from a b show ?thesis unfolding ok1_def nx_def ok2_def tv_def by simp
qed

theorem fallback_chain_witness:
  "makedirs env_fallback = None
   \<and> launched (snd (convert_vsd_to_vdx cfg_ex env_fallback w_ex
                      ''/app/input/b.vsd'' ''/app/output/b.vdx'')) = [Unoconv, LibreOffice]
   \<and> fst (convert_vsd_to_vdx cfg_ex env_fallback w_ex ''/app/input/b.vsd'' ''/app/output/b.vdx'')
       = True
   \<and> makedirs env_ex = None
   \<and> launched (snd (convert_vsd_to_vdx cfg_ex env_ex w_ex
                      ''/app/input/b.vsd'' ''/app/output/b.vdx'')) = [Unoconv]
   \<and> fst (convert_vsd_to_vdx cfg_ex env_ex w_ex ''/app/input/b.vsd'' ''/app/output/b.vdx'') = True"
proof -
  have m: "makedirs env_fallback = None" "makedirs env_ex = None"
    by (simp_all add: env_fallback_def env_ex_def)
  have l: "launched w_ex = []" by (simp add: w_ex_def)
  have n: "next_backend_tried (run_unoconv env_fallback) (copy2_unoconv env_fallback)
             (remove_unoconv env_fallback)
             (os_path_exists (files w_ex) (temp_vdx_of cfg_ex ''/app/input/b.vsd''))"
    "attempt_succeeds (run_soffice env_fallback) (copy2_soffice env_fallback)
       (remove_soffice env_fallback)
       (os_path_exists (files w_ex) (temp_vdx_of cfg_ex ''/app/input/b.vsd'')
        \<or> deposited (run_unoconv env_fallback))"
    by code_simp+
  have k: "attempt_succeeds (run_unoconv env_ex) (copy2_unoconv env_ex) (remove_unoconv env_ex)
             (os_path_exists (files w_ex) (temp_vdx_of cfg_ex ''/app/input/b.vsd''))"
    "\<not> next_backend_tried (run_unoconv env_ex) (copy2_unoconv env_ex) (remove_unoconv env_ex)
             (os_path_exists (files w_ex) (temp_vdx_of cfg_ex ''/app/input/b.vsd''))"
    by code_simp+
  from fallback_chain [OF m(1), of cfg_ex w_ex "''/app/input/b.vsd''" "''/app/output/b.vdx''"] n l
  have a: "launched (snd (convert_vsd_to_vdx cfg_ex env_fallback w_ex
                      ''/app/input/b.vsd'' ''/app/output/b.vdx'')) = [Unoconv, LibreOffice]"
    and b: "fst (convert_vsd_to_vdx cfg_ex env_fallback w_ex ''/app/input/b.vsd'' ''/app/output/b.vdx'')
       = True" by simp_all
  from fallback_chain [OF m(2), of cfg_ex w_ex "''/app/input/b.vsd''" "''/app/output/b.vdx''"] k l
  have c: "launched (snd (convert_vsd_to_vdx cfg_ex env_ex w_ex
                      ''/app/input/b.vsd'' ''/app/output/b.vdx'')) = [Unoconv]"
    and d: "fst (convert_vsd_to_vdx cfg_ex env_ex w_ex ''/app/input/b.vsd'' ''/app/output/b.vdx'') = True"
    by simp_all
  from m a b c d show ?thesis by blast
qed

text \<open>
  \<^verbatim>\<open>unoconv\<close> writes the file and exits with status 1, LibreOffice is not installed:
  the conversion returns false although an attempted backend has deposited the file.
  \<^verbatim>\<open>unoconv\<close> cannot be executed (permission denied): LibreOffice is never launched.
\<close>

theorem exit_status_decides_counterexample:
  "deposited (run_unoconv env_exit1)
   \<and> launched (snd (convert_vsd_to_vdx cfg_ex env_exit1 w_ex
                      ''/app/input/b.vsd'' ''/app/output/b.vdx'')) = [Unoconv, LibreOffice]
   \<and> fst (convert_vsd_to_vdx cfg_ex env_exit1 w_ex ''/app/input/b.vsd'' ''/app/output/b.vdx'')
       = False
   \<and> launched (snd (convert_vsd_to_vdx cfg_ex env_unoconv_denied w_ex
                      ''/app/input/b.vsd'' ''/app/output/b.vdx'')) = [Unoconv]
   \<and> fst (convert_vsd_to_vdx cfg_ex env_unoconv_denied w_ex ''/app/input/b.vsd'' ''/app/output/b.vdx'')
       = False"
  by code_simp

end
